theory Spec2Isabelle
  imports Main "HOL-Library.Word"
begin

unbundle bit_operations_syntax

section \<open>The TLC5940 LED driver (leds-tlc5940.c)\<close>

text \<open>
  A shallow embedding of the driver's protocol core: the per-channel brightness
  store, the encoder that packs sixteen 12-bit grayscale values into the 24-byte
  frame buffer, and the timer callback and work item that pulse BLANK and push the
  frame buffer over SPI.
\<close>

subsection \<open>Constants and macros\<close>

type_synonym u8 = "8 word"
type_synonym u16 = "16 word"
type_synonym c_int = "32 word"

definition TLC5940_GSCLK_SPEED_HZ :: nat where
  "TLC5940_GSCLK_SPEED_HZ = 2500000"

text \<open>\<open>(unsigned long) (1e9 / TLC5940_GSCLK_SPEED_HZ)\<close>: the quotient is exact.\<close>

definition TLC5940_GSCLK_PERIOD_NS :: nat where
  "TLC5940_GSCLK_PERIOD_NS = 1000000000 div TLC5940_GSCLK_SPEED_HZ"

definition TLC5940_BLANK_PERIOD_NS :: nat where
  "TLC5940_BLANK_PERIOD_NS = 4096 * TLC5940_GSCLK_PERIOD_NS"

definition TLC5940_MAX_LEDS :: nat where
  "TLC5940_MAX_LEDS = 16"

definition TLC5940_GS_CHANNEL_WIDTH :: nat where
  "TLC5940_GS_CHANNEL_WIDTH = 12"

definition TLC5940_FB_SIZE_BITS :: nat where
  "TLC5940_FB_SIZE_BITS = TLC5940_MAX_LEDS * TLC5940_GS_CHANNEL_WIDTH"

definition TLC5940_FB_SIZE :: nat where
  "TLC5940_FB_SIZE = TLC5940_FB_SIZE_BITS div 2 ^ 3"

text \<open>
  The macros take a C \<open>int\<close>; they are evaluated on \<open>int\<close> here, so that a channel
  number past the last one would give a negative offset as it does in C (\<open>>> 3\<close> is
  the arithmetic shift, \<open>div 8\<close> rounding down).
\<close>

definition FB_OFFSET_BITS :: "int \<Rightarrow> int" where
  "FB_OFFSET_BITS led =
     int TLC5940_FB_SIZE_BITS - int TLC5940_GS_CHANNEL_WIDTH * (led + 1)"

definition FB_OFFSET :: "int \<Rightarrow> int" where
  "FB_OFFSET led = FB_OFFSET_BITS led div 2 ^ 3"

subsection \<open>Device state\<close>

text \<open>
  \<open>struct tlc5940_led\<close> and \<open>struct tlc5940\<close>, with the fields the protocol core
  reads or writes. \<open>leds\<close> is the array of \<open>TLC5940_MAX_LEDS\<close> channels and \<open>fb\<close> the
  array of \<open>TLC5940_FB_SIZE\<close> bytes.
\<close>

record tlc5940_led =
  led_id :: int
  brightness :: c_int

record tlc5940 =
  leds :: "tlc5940_led list"
  fb :: "u8 list"
  new_gs_data :: bool
  gpio_blank :: int

definition tlc5940_wf :: "tlc5940 \<Rightarrow> bool" where
  "tlc5940_wf tlc =
     (length (leds tlc) = TLC5940_MAX_LEDS \<and> length (fb tlc) = TLC5940_FB_SIZE)"

subsection \<open>The encoder: \<open>tlc5940_update_fb\<close>\<close>

text \<open>
  C computes on \<open>int\<close> after the integer promotions and truncates on the store to
  a \<open>u8\<close>; \<open>ucast\<close> is both the promotion of an unsigned value and the truncation.
\<close>

definition update_fb_led :: "tlc5940_led \<Rightarrow> nat \<Rightarrow> u8 list \<Rightarrow> u8 list" where
  "update_fb_led led n fb0 =
     (let b = (ucast (brightness led AND 0xfff) :: u16);
          offset = unat (word_of_int (FB_OFFSET (int n)) :: u8);
          mid_byte = (n mod 2 = 0)
      in if mid_byte then
           (let fb1 = fb0[offset :=
                        ucast (((ucast (fb0 ! offset) :: c_int) AND 0xf0)
                               OR drop_bit 8 (ucast b :: c_int))]
            in fb1[offset + 1 := ucast ((ucast b :: c_int) AND 0xff)])
         else
           (let fb1 = fb0[offset := ucast (drop_bit 4 (ucast b :: c_int))]
            in fb1[offset + 1 :=
                 ucast (((ucast (fb1 ! (offset + 1)) :: c_int) AND 0x0f)
                        OR (push_bit 4 (ucast b :: c_int) AND 0xf0))]))"

text \<open>The \<open>for\<close> loop over the channels, from \<open>id\<close> up to \<open>TLC5940_MAX_LEDS\<close>.\<close>

function update_fb_loop :: "tlc5940_led list \<Rightarrow> nat \<Rightarrow> u8 list \<Rightarrow> u8 list" where
  "update_fb_loop ls n fb0 =
     (if n < TLC5940_MAX_LEDS
      then update_fb_loop ls (Suc n) (update_fb_led (ls ! n) n fb0)
      else fb0)"
  by pat_completeness auto
termination
  by (relation "measure (\<lambda>(ls, n, fb0). TLC5940_MAX_LEDS - n)") auto

declare update_fb_loop.simps [simp del]

definition tlc5940_update_fb :: "tlc5940 \<Rightarrow> tlc5940" where
  "tlc5940_update_fb tlc = tlc\<lparr>fb := update_fb_loop (leds tlc) 0 (fb tlc)\<rparr>"

subsection \<open>The wire layout in closed form\<close>

text \<open>
  \<open>const u16 brightness = led->brightness & 0xfff\<close>, promoted back to \<open>int\<close> where
  the loop body uses it.
\<close>

definition gs :: "tlc5940_led \<Rightarrow> c_int" where
  "gs led = ucast (ucast (brightness led AND 0xfff) :: u16)"

text \<open>
  The source's macro \<open>GS_DUO(a, b)\<close>, which the driver defines and never expands:
  \<open>((a) >> 4), ((a) << 4) | ((b) >> 8), (b)\<close>, read as three \<open>u8\<close> initialisers.
\<close>

definition GS_DUO :: "c_int \<Rightarrow> c_int \<Rightarrow> u8 list" where
  "GS_DUO a b = [ucast (drop_bit 4 a), ucast (push_bit 4 a OR drop_bit 8 b), ucast b]"

text \<open>
  The frame the loop leaves in \<open>fb\<close>, as eight duos: channels 15 and 14 first,
  channels 1 and 0 last.
\<close>

definition gs_frame :: "tlc5940_led list \<Rightarrow> u8 list" where
  "gs_frame ls =
     concat (map (\<lambda>k. GS_DUO (gs (ls ! (2 * k + 1))) (gs (ls ! (2 * k)))) (rev [0..<8]))"

definition write_duo :: "tlc5940_led list \<Rightarrow> nat \<Rightarrow> u8 list \<Rightarrow> u8 list" where
  "write_duo ls k fb0 =
     (let d = GS_DUO (gs (ls ! (2 * k + 1))) (gs (ls ! (2 * k)))
      in fb0[21 - 3 * k := d ! 0, 22 - 3 * k := d ! 1, 23 - 3 * k := d ! 2])"

text \<open>
  The layout the specification words: channel 0 first, each even channel \<open>a\<close>
  followed by the odd channel \<open>b\<close> after it.
\<close>

definition spec_encode :: "tlc5940_led list \<Rightarrow> u8 list" where
  "spec_encode ls =
     concat (map (\<lambda>k. [ucast (drop_bit 4 (gs (ls ! (2 * k)))),
                        ucast ((push_bit 4 (gs (ls ! (2 * k))) AND 0xf0)
                               OR drop_bit 8 (gs (ls ! (2 * k + 1)))),
                        ucast (gs (ls ! (2 * k + 1)) AND 0xff)]) [0..<8])"

text \<open>
  Bit \<open>n\<close> of the byte sequence, counted from the most significant bit of byte 0
  (the order in which SPI shifts the buffer out), and the 12-bit field of a channel
  read at \<open>FB_OFFSET_BITS\<close> as a binary numeral, most significant bit first.
\<close>

definition fb_bit :: "u8 list \<Rightarrow> nat \<Rightarrow> bool" where
  "fb_bit fb0 n = bit (fb0 ! (n div 8)) (7 - n mod 8)"

definition gs_field :: "u8 list \<Rightarrow> nat \<Rightarrow> nat" where
  "gs_field fb0 n =
     horner_sum of_bool 2
       (map (\<lambda>i. fb_bit fb0 (nat (FB_OFFSET_BITS (int n)) + (11 - i))) [0..<12])"

subsection \<open>Brightness updates: \<open>tlc5940_set_brightness\<close>\<close>

text \<open>
  The LED is the element \<open>n\<close> of \<open>leds\<close> that \<open>container_of\<close> recovers; the
  \<open>enum led_brightness\<close> argument is a 32-bit value. The flag is raised first, then
  the value is stored as it came.
\<close>

definition tlc5940_set_brightness :: "tlc5940 \<Rightarrow> nat \<Rightarrow> c_int \<Rightarrow> tlc5940" where
  "tlc5940_set_brightness tlc n b =
     (let tlc1 = tlc\<lparr>new_gs_data := True\<rparr>
      in tlc1\<lparr>leds := (leds tlc1)[n := (leds tlc1 ! n)\<lparr>brightness := b\<rparr>]\<rparr>)"

subsection \<open>Hardware and kernel calls the driver makes\<close>

datatype hrtimer_restart = HRTIMER_NORESTART | HRTIMER_RESTART

text \<open>
  One constructor per call: \<open>hrtimer_forward_now\<close> with its interval in
  nanoseconds, \<open>gpio_set_value\<close> with the line and the level, \<open>schedule_work\<close> of
  the device's work item (of the work item of one LED in the 16-bit variant),
  \<open>spi_write\<close> with the bytes sent, and \<open>dev_err\<close> with its message.
\<close>

datatype io =
    Hrtimer_forward_now nat
  | Gpio_set_value int int
  | Schedule_work
  | Schedule_led_work nat
  | Spi_write "u8 list"
  | Dev_err string

subsection \<open>The timer callback and the work item\<close>

text \<open>
  \<open>gpio_is_valid\<close> belongs to the kernel's GPIO interface and is a parameter. The
  callback changes no field of \<open>struct tlc5940\<close>; it returns the calls it made, in
  order, and whether the timer is to be restarted.
\<close>

definition tlc5940_timer_func :: "(int \<Rightarrow> bool) \<Rightarrow> tlc5940 \<Rightarrow> io list \<times> hrtimer_restart" where
  "tlc5940_timer_func gpio_is_valid tlc =
     (let t0 = [Hrtimer_forward_now TLC5940_BLANK_PERIOD_NS]
      in if \<not> gpio_is_valid (gpio_blank tlc)
         then (t0 @ [Dev_err ''invalid gpio, expiring timer''], HRTIMER_NORESTART)
         else
           (t0 @ [Gpio_set_value (gpio_blank tlc) 1, Gpio_set_value (gpio_blank tlc) 0]
               @ (if new_gs_data tlc then [Schedule_work] else []),
            HRTIMER_RESTART))"

text \<open>
  \<open>ret\<close> is what \<open>spi_write\<close> returns for this transfer; the transfer carries the
  first \<open>TLC5940_FB_SIZE\<close> bytes of \<open>fb\<close>.
\<close>

definition tlc5940_work :: "int \<Rightarrow> tlc5940 \<Rightarrow> tlc5940 \<times> io list" where
  "tlc5940_work ret tlc0 =
     (let tlc = tlc5940_update_fb tlc0;
          t = [Spi_write (take TLC5940_FB_SIZE (fb tlc))]
      in if ret \<noteq> 0 then (tlc, t @ [Dev_err ''spi transfer error''])
         else (tlc\<lparr>new_gs_data := False\<rparr>, t))"

subsection \<open>Dispatch: the timer and the work queue\<close>

text \<open>
  The kernel calls into the driver one call at a time: the timer expires (if it is
  armed), the work queue runs the work item (if it is pending), or the LED class
  sets a brightness. \<open>schedule_work\<close> on a pending item changes nothing, and the
  item stops being pending when it starts to run.
\<close>

record driver =
  dev :: tlc5940
  timer_armed :: bool
  work_pending :: bool
  trace :: "io list"

datatype call = Timer_expiry | Work_run int | Brightness_set nat c_int

fun dispatch :: "(int \<Rightarrow> bool) \<Rightarrow> driver \<Rightarrow> call \<Rightarrow> driver" where
  "dispatch v d Timer_expiry =
     (if timer_armed d then
        (case tlc5940_timer_func v (dev d) of
           (t, r) \<Rightarrow> d\<lparr>timer_armed := (r = HRTIMER_RESTART),
                        work_pending := (work_pending d \<or> Schedule_work \<in> set t),
                        trace := trace d @ t\<rparr>)
      else d)"
| "dispatch v d (Work_run ret) =
     (if work_pending d then
        (case tlc5940_work ret (dev d) of
           (tlc, t) \<Rightarrow> d\<lparr>dev := tlc, work_pending := False, trace := trace d @ t\<rparr>)
      else d)"
| "dispatch v d (Brightness_set n b) = d\<lparr>dev := tlc5940_set_brightness (dev d) n b\<rparr>"

definition run :: "(int \<Rightarrow> bool) \<Rightarrow> driver \<Rightarrow> call list \<Rightarrow> driver" where
  "run v d cs = foldl (dispatch v) d cs"

text \<open>The byte sequences of the \<open>spi_write\<close> calls of a trace, in order.\<close>

definition transmits :: "io list \<Rightarrow> u8 list list" where
  "transmits t = concat (map (\<lambda>e. case e of Spi_write bs \<Rightarrow> [bs] | _ \<Rightarrow> []) t)"

text \<open>
  The words of the specification about one tick, on the calls the tick made: BLANK
  of line \<open>g\<close> was written high and low before the timer was forwarded.
\<close>

fun is_rearm :: "io \<Rightarrow> bool" where
  "is_rearm (Hrtimer_forward_now p) = True"
| "is_rearm e = False"

definition pulse_before_rearm :: "int \<Rightarrow> io list \<Rightarrow> bool" where
  "pulse_before_rearm g t =
     (let before = takeWhile (\<lambda>e. \<not> is_rearm e) t
      in Gpio_set_value g 1 \<in> set before \<and> Gpio_set_value g 0 \<in> set before)"

definition pulsed :: "int \<Rightarrow> io list \<Rightarrow> bool" where
  "pulsed g t = (Gpio_set_value g 1 \<in> set t \<and> Gpio_set_value g 0 \<in> set t)"

text \<open>The value the last \<open>Brightness_set\<close> of a call list stored for channel \<open>n\<close>.\<close>

fun last_set :: "call list \<Rightarrow> nat \<Rightarrow> c_int option" where
  "last_set [] n = None"
| "last_set (Brightness_set m b # cs) n =
     (case last_set cs n of Some b' \<Rightarrow> Some b' | None \<Rightarrow> if m = n then Some b else None)"
| "last_set (c # cs) n = last_set cs n"

fun is_brightness_set :: "call \<Rightarrow> bool" where
  "is_brightness_set (Brightness_set n b) = (n < TLC5940_MAX_LEDS)"
| "is_brightness_set c = False"

subsection \<open>Device setup: \<open>tlc5940_probe\<close>\<close>

text \<open>
  What the kernel answers to the calls of \<open>tlc5940_probe\<close>: whether the allocation
  succeeded, the return values of the GPIO and PWM calls (\<open>devm_of_pwm_get\<close> is 0
  for a device and the negative errno of an \<open>ERR_PTR\<close> otherwise), and the result
  of \<open>led_classdev_register\<close> for each child node of the device tree, in order.
\<close>

record probe_env =
  devm_kzalloc_ok :: bool
  of_get_named_gpio :: int
  devm_gpio_request :: int
  gpio_direction_output :: int
  devm_of_pwm_get :: int
  pwm_config :: int
  led_classdev_register :: "int list"

datatype 'a outcome = Bound 'a | Errno int | Overrun

definition LED_OFF :: c_int where
  "LED_OFF = 0"

definition ENOMEM :: int where
  "ENOMEM = 12"

text \<open>The zeroed \<open>struct tlc5940\<close> that \<open>devm_kzalloc\<close> returns.\<close>

definition kzalloc_tlc5940 :: tlc5940 where
  "kzalloc_tlc5940 =
     \<lparr>leds = replicate TLC5940_MAX_LEDS \<lparr>led_id = 0, brightness = 0\<rparr>,
      fb = replicate TLC5940_FB_SIZE 0,
      new_gs_data = False,
      gpio_blank = 0\<rparr>"

text \<open>
  The loop over the child nodes. A child past the last element of \<open>leds\<close> is a
  write outside the array: \<open>Overrun\<close>.
\<close>

fun probe_children :: "int list \<Rightarrow> nat \<Rightarrow> tlc5940 \<Rightarrow> tlc5940 outcome" where
  "probe_children [] i tlc = Bound tlc"
| "probe_children (r # rs) i tlc =
     (if i < length (leds tlc) then
        (let tlc1 = tlc\<lparr>leds := (leds tlc)[i := \<lparr>led_id = int i, brightness = LED_OFF\<rparr>]\<rparr>
         in if r < 0 then Errno r else probe_children rs (Suc i) tlc1)
      else Overrun)"

text \<open>
  On success the timer has been started (\<open>hrtimer_start\<close>), the work item
  initialised and not scheduled, and the callbacks have made no call yet.
\<close>

definition tlc5940_probe :: "probe_env \<Rightarrow> driver outcome" where
  "tlc5940_probe env =
     (if \<not> devm_kzalloc_ok env then Errno (- ENOMEM)
      else if of_get_named_gpio env < 0 then Errno (of_get_named_gpio env)
      else
        (let tlc1 = kzalloc_tlc5940\<lparr>gpio_blank := of_get_named_gpio env\<rparr>
         in if devm_gpio_request env \<noteq> 0 then Errno (devm_gpio_request env)
            else if gpio_direction_output env \<noteq> 0 then Errno (gpio_direction_output env)
            else if devm_of_pwm_get env < 0 then Errno (devm_of_pwm_get env)
            else if pwm_config env \<noteq> 0 then Errno (pwm_config env)
            else
              (let tlc2 = tlc1\<lparr>new_gs_data := True\<rparr>
               in case probe_children (led_classdev_register env) 0 tlc2 of
                    Bound tlc3 \<Rightarrow>
                      Bound \<lparr>dev = tlc3, timer_armed = True, work_pending = False, trace = []\<rparr>
                  | Errno e \<Rightarrow> Errno e
                  | Overrun \<Rightarrow> Overrun)))"

subsection \<open>The variant with a 16-bit word per channel\<close>

text \<open>
  The second \<open>tlc5940_set_brightness\<close> of the file keeps one \<open>u16\<close> per channel in
  \<open>fb\<close> and stores \<open>clamp(((u16) brightness) << 4, 0x000, 0xfff)\<close> there, then
  schedules the work item of the LED.
\<close>

text \<open>
  Modelled from the spec: the kernel's \<open>clamp\<close> macro is not in the repository; the
  specification's clamping stores the nearest boundary value of the range.
\<close>

definition clamp :: "int \<Rightarrow> int \<Rightarrow> int \<Rightarrow> int" where
  "clamp val lo hi = min (max val lo) hi"

definition scaled_brightness :: "c_int \<Rightarrow> u16" where
  "scaled_brightness b =
     word_of_int (clamp (sint (push_bit 4 (ucast (ucast b :: u16) :: c_int))) 0x000 0xfff)"

definition tlc5940_set_brightness_fb16 :: "u16 list \<Rightarrow> nat \<Rightarrow> c_int \<Rightarrow> u16 list \<times> io list" where
  "tlc5940_set_brightness_fb16 fb16 n b =
     (fb16[n := scaled_brightness b], [Schedule_led_work n])"

subsection \<open>Example states\<close>

text \<open>
  Concrete inputs for the theorems below: a device with given channel values, a
  frame buffer filled with one byte and BLANK on GPIO 17; \<open>gpio_is_valid\<close> as the
  kernel defines it, for 512 GPIOs; a probe environment in which every call
  succeeds and the device tree has sixteen children.
\<close>

definition leds_of :: "c_int list \<Rightarrow> tlc5940_led list" where
  "leds_of bs = map (\<lambda>(i, b). \<lparr>led_id = int i, brightness = b\<rparr>) (enumerate 0 bs)"

definition tlc_of :: "c_int list \<Rightarrow> u8 \<Rightarrow> bool \<Rightarrow> tlc5940" where
  "tlc_of bs fill dirty =
     \<lparr>leds = leds_of bs, fb = replicate 24 fill, new_gs_data = dirty, gpio_blank = 17\<rparr>"

definition gpio_in_range :: "int \<Rightarrow> bool" where
  "gpio_in_range g = (0 \<le> g \<and> g < 512)"

definition env_ok :: probe_env where
  "env_ok =
     \<lparr>devm_kzalloc_ok = True, of_get_named_gpio = 17, devm_gpio_request = 0,
      gpio_direction_output = 0, devm_of_pwm_get = 0, pwm_config = 0,
      led_classdev_register = replicate 16 0\<rparr>"

definition ch0_full :: "c_int list" where
  "ch0_full = [0xFFF, 0, 0, 0, 0, 0, 0, 0, 0, 0, 0, 0, 0, 0, 0, 0]"

definition ch15_full :: "c_int list" where
  "ch15_full = [0, 0, 0, 0, 0, 0, 0, 0, 0, 0, 0, 0, 0, 0, 0, 0xFFF]"

definition ramp :: "c_int list" where
  "ramp = [0x001, 0x112, 0x223, 0x334, 0x445, 0x556, 0x667, 0x778,
           0x889, 0x99a, 0xaab, 0xbbc, 0xccd, 0xdde, 0xeef, 0xff0]"

definition all_full :: "c_int list" where
  "all_full = [0xFFF, 0xFFF, 0xFFF, 0xFFF, 0xFFF, 0xFFF, 0xFFF, 0xFFF,
               0xFFF, 0xFFF, 0xFFF, 0xFFF, 0xFFF, 0xFFF, 0xFFF, 0xFFF]"

definition all_off :: "c_int list" where
  "all_off = [0, 0, 0, 0, 0, 0, 0, 0, 0, 0, 0, 0, 0, 0, 0, 0]"

definition driver_of :: "tlc5940 \<Rightarrow> driver" where
  "driver_of tlc = \<lparr>dev = tlc, timer_armed = True, work_pending = False, trace = []\<rparr>"

definition EIO :: int where
  "EIO = 5"

definition three_sets :: "call list" where
  "three_sets = [Brightness_set 0 0x123, Brightness_set 15 0xFFF, Brightness_set 0 0x000]"

definition tlc_bad_gpio :: tlc5940 where
  "tlc_bad_gpio = (tlc_of all_off 0 True)\<lparr>gpio_blank := 600\<rparr>"

section \<open>Lemmas about the encoder\<close>

lemma mask_fff: "(0xfff :: c_int) = mask 12"
  by (simp add: mask_eq_exp_minus_1)

lemma mask_ff: "(0xff :: c_int) = mask 8"
  by (simp add: mask_eq_exp_minus_1)

lemma mask_0f: "(0x0f :: c_int) = mask 4"
  by (simp add: mask_eq_exp_minus_1)

lemma mask_f0: "(0xf0 :: c_int) = push_bit 4 (mask 4)"
  by (simp add: mask_eq_exp_minus_1)

lemma gs_mask: "gs led = brightness led AND mask 12"
  unfolding gs_def mask_fff
  by (rule bit_eqI) (auto simp add: bit_simps)

lemma lt8_cases:
  "k < 8 \<Longrightarrow> k \<in> {0, 1, 2, 3, 4, 5, 6, 7::nat}"
  by (simp only: insert_iff empty_iff) arith

lemma lt24_cases:
  "i < 24 \<Longrightarrow>
   i \<in> {0, 1, 2, 3, 4, 5, 6, 7, 8, 9, 10, 11, 12, 13, 14, 15, 16, 17, 18, 19, 20, 21, 22, 23::nat}"
  by (simp only: insert_iff empty_iff) arith

lemmas layout_consts =
  FB_OFFSET_def FB_OFFSET_BITS_def TLC5940_FB_SIZE_BITS_def TLC5940_FB_SIZE_def
  TLC5940_MAX_LEDS_def TLC5940_GS_CHANNEL_WIDTH_def

lemma offset_even:
  "k < 8 \<Longrightarrow> unat (word_of_int (FB_OFFSET (int (2 * k))) :: u8) = 22 - 3 * k"
  by (drule lt8_cases) (auto simp: layout_consts)

lemma offset_odd:
  "k < 8 \<Longrightarrow> unat (word_of_int (FB_OFFSET (int (2 * k + 1))) :: u8) = 21 - 3 * k"
  by (drule lt8_cases) (auto simp: layout_consts)

lemma byte_mid:
  fixes f :: u8
  shows "(ucast (((ucast ((ucast (((ucast f :: c_int) AND 0xf0) OR drop_bit 8 (gs l0)) :: u8)) :: c_int)
                  AND 0x0f) OR (push_bit 4 (gs l1) AND 0xf0)) :: u8)
         = ucast (push_bit 4 (gs l1) OR drop_bit 8 (gs l0))"
  unfolding gs_mask mask_0f mask_f0
  by (rule bit_eqI) (auto simp add: bit_simps)

lemma byte_low: "(ucast (gs l0 AND 0xff) :: u8) = ucast (gs l0)"
  unfolding gs_mask mask_ff
  by (rule bit_eqI) (auto simp add: bit_simps)

lemma update_fb_led_even:
  assumes "k < 8"
  shows "update_fb_led l0 (2 * k) fb0 =
         fb0[22 - 3 * k := ucast (((ucast (fb0 ! (22 - 3 * k)) :: c_int) AND 0xf0)
                                   OR drop_bit 8 (gs l0)),
             23 - 3 * k := ucast (gs l0)]"
proof -
  have o: "22 - 3 * k + 1 = 23 - 3 * k"
    using assms by simp
  show ?thesis
    unfolding update_fb_led_def offset_even[OF assms] Let_def o gs_def[symmetric]
    by (simp add: byte_low)
qed

lemma update_fb_led_odd:
  assumes "k < 8"
  shows "update_fb_led l1 (2 * k + 1) fb0 =
         fb0[21 - 3 * k := ucast (drop_bit 4 (gs l1)),
             22 - 3 * k :=
               ucast (((ucast (fb0[21 - 3 * k := ucast (drop_bit 4 (gs l1))] ! (22 - 3 * k)) :: c_int)
                       AND 0x0f) OR (push_bit 4 (gs l1) AND 0xf0))]"
proof -
  have o: "21 - 3 * k + 1 = 22 - 3 * k"
    using assms by simp
  show ?thesis
    unfolding update_fb_led_def offset_odd[OF assms] Let_def o gs_def[symmetric]
    by simp
qed

lemma update_fb_pair:
  assumes k: "k < 8" and len: "length fb0 = 24"
  shows "update_fb_led l1 (2 * k + 1) (update_fb_led l0 (2 * k) fb0) =
         fb0[21 - 3 * k := GS_DUO (gs l1) (gs l0) ! 0,
             22 - 3 * k := GS_DUO (gs l1) (gs l0) ! 1,
             23 - 3 * k := GS_DUO (gs l1) (gs l0) ! 2]"
proof -
  have o: "23 - 3 * k < 24" "22 - 3 * k < 24" "21 - 3 * k \<noteq> 22 - 3 * k"
    "21 - 3 * k \<noteq> 23 - 3 * k" "22 - 3 * k \<noteq> 23 - 3 * k"
    using k by auto
  show ?thesis
    unfolding update_fb_led_even[OF k] update_fb_led_odd[OF k]
    using len o
    apply (simp add: GS_DUO_def byte_mid)
    apply (rule nth_equalityI)
     apply simp
    subgoal for i
      by (cases "i = 21 - 3 * k"; cases "i = 22 - 3 * k"; cases "i = 23 - 3 * k"; simp)
    done
qed

lemma update_fb_loop_fold:
  "n \<le> TLC5940_MAX_LEDS \<Longrightarrow>
   update_fb_loop ls n fb0 = fold (\<lambda>i. update_fb_led (ls ! i) i) [n..<TLC5940_MAX_LEDS] fb0"
proof (induction ls n fb0 rule: update_fb_loop.induct)
  case (1 ls n fb0)
  show ?case
  proof (cases "n < TLC5940_MAX_LEDS")
    case True
    then show ?thesis
      using 1 by (subst update_fb_loop.simps) (simp add: upt_conv_Cons)
  next
    case False
    then show ?thesis
      using 1 by (subst update_fb_loop.simps) simp
  qed
qed

lemma length_write_duo [simp]: "length (write_duo ls k fb0) = length fb0"
  by (simp add: write_duo_def Let_def)

lemma pair_step:
  "k < 8 \<Longrightarrow> length fb0 = 24 \<Longrightarrow>
   update_fb_led (ls ! Suc (2 * k)) (Suc (2 * k)) (update_fb_led (ls ! (2 * k)) (2 * k) fb0)
   = write_duo ls k fb0"
  using update_fb_pair[of k fb0 "ls ! Suc (2 * k)" "ls ! (2 * k)"]
  by (simp add: write_duo_def Let_def)

lemma upt_8: "[0..<8] = [0, 1, 2, 3, 4, 5, 6, 7::nat]"
  by (simp add: upt_rec)

lemma update_fb_loop_duos:
  assumes "length fb0 = 24"
  shows "update_fb_loop ls 0 fb0 = fold (write_duo ls) [0..<8] fb0"
proof -
  have u16: "[0..<16] =
      [2 * 0, Suc (2 * 0), 2 * 1, Suc (2 * 1), 2 * 2, Suc (2 * 2), 2 * 3, Suc (2 * 3),
       2 * 4, Suc (2 * 4), 2 * 5, Suc (2 * 5), 2 * 6, Suc (2 * 6), 2 * 7, Suc (2 * 7)]"
    by (simp add: upt_rec)
  show ?thesis
    unfolding update_fb_loop_fold[of 0, simplified] TLC5940_MAX_LEDS_def u16 upt_8
      fold.simps comp_def id_def
    using assms
    by (simp only: pair_step length_write_duo)
qed

lemma length_gs_frame [simp]: "length (gs_frame ls) = 24"
  by (simp add: gs_frame_def upt_8 GS_DUO_def)

lemma update_fb_loop_frame:
  assumes "length fb0 = 24"
  shows "update_fb_loop ls 0 fb0 = gs_frame ls"
proof (rule nth_equalityI)
  show "length (update_fb_loop ls 0 fb0) = length (gs_frame ls)"
    by (simp add: update_fb_loop_duos[OF assms] upt_8 assms)
next
  fix i
  assume "i < length (update_fb_loop ls 0 fb0)"
  then have "i < 24"
    by (simp add: update_fb_loop_duos[OF assms] upt_8 assms)
  then have "i \<in> {0, 1, 2, 3, 4, 5, 6, 7, 8, 9, 10, 11, 12, 13, 14, 15, 16, 17, 18, 19, 20,
      21, 22, 23::nat}"
    by (rule lt24_cases)
  then show "update_fb_loop ls 0 fb0 ! i = gs_frame ls ! i"
    unfolding update_fb_loop_duos[OF assms] upt_8
    apply (simp only: insert_iff empty_iff)
    apply (elim disjE FalseE)
                        apply (simp_all add: write_duo_def Let_def gs_frame_def upt_8 GS_DUO_def assms)
    done
qed

lemma fb_update_fb:
  "length (fb tlc) = 24 \<Longrightarrow> fb (tlc5940_update_fb tlc) = gs_frame (leds tlc)"
  by (simp add: tlc5940_update_fb_def update_fb_loop_frame)

lemma update_fb_others [simp]:
  "leds (tlc5940_update_fb tlc) = leds tlc"
  "new_gs_data (tlc5940_update_fb tlc) = new_gs_data tlc"
  "gpio_blank (tlc5940_update_fb tlc) = gpio_blank tlc"
  by (simp_all add: tlc5940_update_fb_def)

lemma gs_frame_duo:
  assumes "k < 8"
  shows "take 3 (drop (3 * (7 - k)) (gs_frame ls)) = GS_DUO (gs (ls ! (2 * k + 1))) (gs (ls ! (2 * k)))"
  using lt8_cases[OF assms]
  apply (simp only: insert_iff empty_iff)
  apply (elim disjE FalseE)
         apply (simp_all add: gs_frame_def upt_8 GS_DUO_def)
  done

lemma gs_frame_nth:
  assumes "k < 8"
  shows "gs_frame ls ! (21 - 3 * k) = ucast (drop_bit 4 (gs (ls ! (2 * k + 1))))"
    and "gs_frame ls ! (22 - 3 * k) = ucast (push_bit 4 (gs (ls ! (2 * k + 1))) OR drop_bit 8 (gs (ls ! (2 * k))))"
    and "gs_frame ls ! (23 - 3 * k) = ucast (gs (ls ! (2 * k)))"
  using lt8_cases[OF assms]
    apply (simp only: insert_iff empty_iff)
    apply (elim disjE FalseE)
           apply (simp_all add: gs_frame_def upt_8 GS_DUO_def)
  using lt8_cases[OF assms]
   apply (simp only: insert_iff empty_iff)
   apply (elim disjE FalseE)
          apply (simp_all add: gs_frame_def upt_8 GS_DUO_def)
  using lt8_cases[OF assms]
  apply (simp only: insert_iff empty_iff)
  apply (elim disjE FalseE)
         apply (simp_all add: gs_frame_def upt_8 GS_DUO_def)
  done

subsection \<open>Bits of the frame\<close>

lemma bit_index:
  fixes q r :: nat
  assumes "r < 8"
  shows "(8 * q + r) div 8 = q" "(8 * q + r) mod 8 = r"
  using assms by simp_all

lemma fb_bit_at:
  assumes "r < 8"
  shows "fb_bit fb0 (8 * q + r) = bit (fb0 ! q) (7 - r)"
  unfolding fb_bit_def using assms by simp

lemma fb_bit_even:
  assumes k: "k < 8" and j: "j < 12"
  shows "fb_bit (gs_frame ls) (nat (FB_OFFSET_BITS (int (2 * k))) + j) = bit (gs (ls ! (2 * k))) (11 - j)"
proof -
  have off: "nat (FB_OFFSET_BITS (int (2 * k))) = 8 * (22 - 3 * k) + 4"
    using k by (simp add: layout_consts)
  show ?thesis
  proof (cases "j < 4")
    case True
    then have "nat (FB_OFFSET_BITS (int (2 * k))) + j = 8 * (22 - 3 * k) + (4 + j)" "4 + j < 8" "7 - (4 + j) = 3 - j"
      using off by simp_all
    then show ?thesis
      using True 
      by (simp only: fb_bit_at gs_frame_nth[OF k]) (auto simp add: bit_simps)
  next
    case False
    then have "nat (FB_OFFSET_BITS (int (2 * k))) + j = 8 * (23 - 3 * k) + (j - 4)" "j - 4 < 8" "7 - (j - 4) = 11 - j"
      using off k j by simp_all
    then show ?thesis
      using False j
      by (simp only: fb_bit_at gs_frame_nth[OF k]) (auto simp add: bit_simps)
  qed
qed

lemma fb_bit_odd:
  assumes k: "k < 8" and j: "j < 12"
  shows "fb_bit (gs_frame ls) (nat (FB_OFFSET_BITS (int (2 * k + 1))) + j) = bit (gs (ls ! (2 * k + 1))) (11 - j)"
proof -
  have off: "nat (FB_OFFSET_BITS (int (2 * k + 1))) = 8 * (21 - 3 * k)"
    using k by (simp add: layout_consts)
  show ?thesis
  proof (cases "j < 8")
    case True
    then have "nat (FB_OFFSET_BITS (int (2 * k + 1))) + j = 8 * (21 - 3 * k) + j"
      using off by simp_all
    then show ?thesis
      using True 
      by (simp only: fb_bit_at gs_frame_nth[OF k]) (auto simp add: bit_simps)
  next
    case False
    then have "nat (FB_OFFSET_BITS (int (2 * k + 1))) + j = 8 * (22 - 3 * k) + (j - 8)" "j - 8 < 8" "7 - (j - 8) = 15 - j"
      using off k j by simp_all
    then show ?thesis
      using False j
      by (simp only: fb_bit_at gs_frame_nth[OF k]) (auto simp add: bit_simps gs_mask)
  qed
qed

lemma fb_bit_gs_frame:
  assumes "n < 16" "j < 12"
  shows "fb_bit (gs_frame ls) (nat (FB_OFFSET_BITS (int n)) + j) = bit (gs (ls ! n)) (11 - j)"
proof (cases "even n")
  case True
  then obtain k where "n = 2 * k" by (elim evenE)
  with assms show ?thesis using fb_bit_even[of k j ls] by simp
next
  case False
  then obtain k where "n = 2 * k + 1" by (elim oddE)
  with assms show ?thesis using fb_bit_odd[of k j ls] by simp
qed

lemma gs_field_gs_frame:
  assumes "n < 16"
  shows "gs_field (gs_frame ls) n = unat (gs (ls ! n))"
proof -
  have "map (\<lambda>i. fb_bit (gs_frame ls) (nat (FB_OFFSET_BITS (int n)) + (11 - i))) [0..<12]
        = map (\<lambda>i. bit (unat (gs (ls ! n))) i) [0..<12]"
  proof (rule map_cong[OF refl])
    fix i assume "i \<in> set [0..<12]"
    then have i: "i < 12" by simp
    then have "11 - i < 12" "11 - (11 - i) = i" by simp_all
    then show "fb_bit (gs_frame ls) (nat (FB_OFFSET_BITS (int n)) + (11 - i)) = bit (unat (gs (ls ! n))) i"
      using fb_bit_gs_frame[OF assms, of "11 - i" ls] i
      by (simp add: bit_unsigned_iff)
  qed
  then have "gs_field (gs_frame ls) n = take_bit 12 (unat (gs (ls ! n)))"
    unfolding gs_field_def by (simp only: horner_sum_bit_eq_take_bit)
  also have "\<dots> = unat (take_bit 12 (gs (ls ! n)))"
    by (simp add: unsigned_take_bit_eq)
  also have "take_bit 12 (gs (ls ! n)) = gs (ls ! n)"
    unfolding gs_mask by (rule bit_eqI) (auto simp add: bit_simps)
  finally show ?thesis .
qed

lemma uint_gs: "uint (gs led) = sint (brightness led) mod 4096"
proof -
  have "uint (gs led) = take_bit 12 (uint (brightness led))"
    by (simp only: gs_mask flip: take_bit_eq_mask) (simp only: unsigned_take_bit_eq)
  also have "\<dots> = take_bit 12 (sint (brightness led))"
    by (simp add: sint_uint take_bit_signed_take_bit)
  finally show ?thesis
    by (simp add: take_bit_eq_mod)
qed

subsection \<open>Determinism and totality of the encoder\<close>

lemma gs_frame_cong:
  assumes "\<And>i. i < 16 \<Longrightarrow> brightness (ls1 ! i) = brightness (ls2 ! i)"
  shows "gs_frame ls1 = gs_frame ls2"
  using assms by (simp add: gs_frame_def upt_8 gs_def)

lemma offsets_in_fb:
  assumes "n < TLC5940_MAX_LEDS"
  shows "unat (word_of_int (FB_OFFSET (int n)) :: u8) + 1 < TLC5940_FB_SIZE"
proof (cases "even n")
  case True
  then obtain k where n: "n = 2 * k" by (elim evenE)
  with assms have "k < 8" by (simp add: TLC5940_MAX_LEDS_def)
  then show ?thesis
    unfolding n offset_even[OF \<open>k < 8\<close>] by (simp add: layout_consts)
next
  case False
  then obtain k where n: "n = 2 * k + 1" by (elim oddE)
  with assms have "k < 8" by (simp add: TLC5940_MAX_LEDS_def)
  then show ?thesis
    unfolding n offset_odd[OF \<open>k < 8\<close>] by (simp add: layout_consts)
qed

lemma wf_lengths: "tlc5940_wf tlc \<Longrightarrow> length (leds tlc) = 16 \<and> length (fb tlc) = 24"
  by (simp add: tlc5940_wf_def layout_consts)

text \<open>
  C8. The encoder is deterministic and total: two runs from the same sixteen stored
  brightness values leave the same bytes in the frame buffer, whatever the buffer
  held before; every byte the loop touches lies inside the buffer; and the result
  is exactly \<open>ceil (16 * 12 / 8) = 24\<close> bytes long.
\<close>

theorem C8_encoding_deterministic:
  assumes "tlc5940_wf tlc1" and "tlc5940_wf tlc2"
    and "map brightness (leds tlc1) = map brightness (leds tlc2)"
  shows "fb (tlc5940_update_fb tlc1) = fb (tlc5940_update_fb tlc2)
       \<and> length (fb (tlc5940_update_fb tlc1)) = 24
       \<and> TLC5940_FB_SIZE = (TLC5940_MAX_LEDS * TLC5940_GS_CHANNEL_WIDTH + 7) div 8
       \<and> (\<forall>n<TLC5940_MAX_LEDS. unat (word_of_int (FB_OFFSET (int n)) :: u8) + 1 < TLC5940_FB_SIZE)"
proof -
  have len: "length (leds tlc1) = 16" "length (leds tlc2) = 16"
    "length (fb tlc1) = 24" "length (fb tlc2) = 24"
    using assms(1,2) by (simp_all add: wf_lengths)
  have "brightness (leds tlc1 ! i) = brightness (leds tlc2 ! i)" if "i < 16" for i
  proof -
    have "brightness (leds tlc1 ! i) = map brightness (leds tlc1) ! i"
      using that len by simp
    also have "\<dots> = map brightness (leds tlc2) ! i"
      by (simp only: assms(3))
    also have "\<dots> = brightness (leds tlc2 ! i)"
      using that len by simp
    finally show ?thesis .
  qed
  then have "gs_frame (leds tlc1) = gs_frame (leds tlc2)"
    by (rule gs_frame_cong)
  then have "fb (tlc5940_update_fb tlc1) = fb (tlc5940_update_fb tlc2)"
    by (simp add: fb_update_fb len)
  moreover have "length (fb (tlc5940_update_fb tlc1)) = 24"
    by (simp add: fb_update_fb len)
  moreover have "TLC5940_FB_SIZE = (TLC5940_MAX_LEDS * TLC5940_GS_CHANNEL_WIDTH + 7) div 8"
    by (simp add: layout_consts)
  ultimately show ?thesis
    using offsets_in_fb by blast
qed

lemma wf_tlc_of: "length bs = 16 \<Longrightarrow> tlc5940_wf (tlc_of bs fill dirty)"
  by (simp add: tlc5940_wf_def tlc_of_def leds_of_def layout_consts)

lemma brightness_leds_of: "map brightness (leds_of bs) = bs"
  by (simp add: leds_of_def comp_def case_prod_unfold)

theorem C8_encoding_deterministic_witness:
  "fb (tlc5940_update_fb (tlc_of [1, 2, 3, 4, 5, 6, 7, 8, 9, 10, 11, 12, 13, 14, 15, 16] 0xAA True))
   = fb (tlc5940_update_fb (tlc_of [1, 2, 3, 4, 5, 6, 7, 8, 9, 10, 11, 12, 13, 14, 15, 16] 0x55 False))
   \<and> length (fb (tlc5940_update_fb (tlc_of [1, 2, 3, 4, 5, 6, 7, 8, 9, 10, 11, 12, 13, 14, 15, 16] 0xAA True))) = 24
   \<and> unat (word_of_int (FB_OFFSET (int 0)) :: u8) + 1 < TLC5940_FB_SIZE"
proof -
  let ?bs = "[1, 2, 3, 4, 5, 6, 7, 8, 9, 10, 11, 12, 13, 14, 15, 16] :: c_int list"
  have wf: "tlc5940_wf (tlc_of ?bs 0xAA True)" "tlc5940_wf (tlc_of ?bs 0x55 False)"
    by (simp_all add: wf_tlc_of)
  have same: "map brightness (leds (tlc_of ?bs 0xAA True)) = map brightness (leds (tlc_of ?bs 0x55 False))"
    by (simp add: tlc_of_def)
  have z: "(0::nat) < TLC5940_MAX_LEDS"
    by (simp add: TLC5940_MAX_LEDS_def)
  show ?thesis
    using C8_encoding_deterministic[OF wf same] z by auto
qed

subsection \<open>The layout on the wire\<close>

lemma byte_mid_masked:
  "(ucast ((push_bit 4 a AND 0xf0) OR drop_bit 8 b) :: u8) = ucast (push_bit 4 (a :: c_int) OR drop_bit 8 (b :: c_int))"
  unfolding mask_f0
  by (rule bit_eqI) (auto simp add: bit_simps)

lemma set_brightness_fields [simp]:
  "new_gs_data (tlc5940_set_brightness tlc n b) = True"
  "fb (tlc5940_set_brightness tlc n b) = fb tlc"
  "gpio_blank (tlc5940_set_brightness tlc n b) = gpio_blank tlc"
  "leds (tlc5940_set_brightness tlc n b) = (leds tlc)[n := (leds tlc ! n)\<lparr>brightness := b\<rparr>]"
  by (simp_all add: tlc5940_set_brightness_def Let_def)

lemma wf_set_brightness [simp]:
  "tlc5940_wf (tlc5940_set_brightness tlc n b) = tlc5940_wf tlc"
  by (simp add: tlc5940_wf_def)

lemma wf_update_fb:
  "tlc5940_wf tlc \<Longrightarrow> tlc5940_wf (tlc5940_update_fb tlc)"
  using fb_update_fb[of tlc] by (simp add: tlc5940_wf_def layout_consts)

text \<open>
  C1, as the code has it. Counting the bits of the 24 bytes from the most
  significant bit of byte 0, the twelve bits at offset
  \<open>FB_OFFSET_BITS n = total_bits - 12 * (n + 1)\<close> are the value of channel \<open>n\<close>
  masked to 12 bits, most significant bit first. Channel 15 therefore fills the
  first bytes and channel 0 the last ones, and the three bytes at \<open>3 * (7 - k)\<close>
  hold the odd channel \<open>a = 2 * k + 1\<close> followed by the even channel \<open>b = 2 * k\<close>:
  \<open>a >> 4\<close>, \<open>(a << 4 & 0xf0) | (b >> 8)\<close>, \<open>b & 0xff\<close>.
\<close>

theorem C1_wire_layout:
  assumes "tlc5940_wf tlc"
  shows "(\<forall>n<TLC5940_MAX_LEDS. \<forall>j<TLC5940_GS_CHANNEL_WIDTH.
            fb_bit (fb (tlc5940_update_fb tlc)) (nat (FB_OFFSET_BITS (int n)) + j)
            = bit (gs (leds tlc ! n)) (11 - j))
       \<and> (\<forall>k<8. take 3 (drop (3 * (7 - k)) (fb (tlc5940_update_fb tlc)))
            = [ucast (drop_bit 4 (gs (leds tlc ! (2 * k + 1)))),
               ucast ((push_bit 4 (gs (leds tlc ! (2 * k + 1))) AND 0xf0)
                      OR drop_bit 8 (gs (leds tlc ! (2 * k)))),
               ucast (gs (leds tlc ! (2 * k)) AND 0xff)])"
proof -
  have fb: "fb (tlc5940_update_fb tlc) = gs_frame (leds tlc)"
    using assms by (simp add: fb_update_fb wf_lengths)
  have bits: "fb_bit (gs_frame (leds tlc)) (nat (FB_OFFSET_BITS (int n)) + j)
              = bit (gs (leds tlc ! n)) (11 - j)"
    if "n < TLC5940_MAX_LEDS" "j < TLC5940_GS_CHANNEL_WIDTH" for n j
    using that fb_bit_gs_frame[of n j "leds tlc"]
    by (simp add: TLC5940_MAX_LEDS_def TLC5940_GS_CHANNEL_WIDTH_def)
  have duo: "take 3 (drop (3 * (7 - k)) (gs_frame (leds tlc)))
            = [ucast (drop_bit 4 (gs (leds tlc ! (2 * k + 1)))),
               ucast ((push_bit 4 (gs (leds tlc ! (2 * k + 1))) AND 0xf0)
                      OR drop_bit 8 (gs (leds tlc ! (2 * k)))),
               ucast (gs (leds tlc ! (2 * k)) AND 0xff)]"
    if "k < 8" for k
    unfolding gs_frame_duo[OF that] GS_DUO_def byte_mid_masked byte_low ..
  show ?thesis
    unfolding fb using bits duo by blast
qed

lemma leds_of_nth: "i < length bs \<Longrightarrow> brightness (leds_of bs ! i) = bs ! i"
  by (simp add: leds_of_def nth_enumerate_eq)

theorem C1_wire_layout_witness:
  "tlc5940_wf (tlc_of ramp 0xAA True)
   \<and> fb_bit (fb (tlc5940_update_fb (tlc_of ramp 0xAA True))) (nat (FB_OFFSET_BITS (int 0)) + 11)
     = bit (gs (leds (tlc_of ramp 0xAA True) ! 0)) (11 - 11)
   \<and> take 3 (drop (3 * (7 - 7)) (fb (tlc5940_update_fb (tlc_of ramp 0xAA True)))) = [0xff, 0x0e, 0xef]"
proof -
  have wf: "tlc5940_wf (tlc_of ramp 0xAA True)"
    by (simp add: wf_tlc_of ramp_def)
  have r: "gs (leds (tlc_of ramp 0xAA True) ! (2 * 7 + 1)) = 0xff0"
    "gs (leds (tlc_of ramp 0xAA True) ! (2 * 7)) = 0xeef"
    by (simp_all add: tlc_of_def gs_def leds_of_nth ramp_def)
  have b: "(0::nat) < TLC5940_MAX_LEDS" "(11::nat) < TLC5940_GS_CHANNEL_WIDTH" "(7::nat) < 8"
    by (simp_all add: layout_consts)
  from C1_wire_layout[OF wf] b
  have "fb_bit (fb (tlc5940_update_fb (tlc_of ramp 0xAA True))) (nat (FB_OFFSET_BITS (int 0)) + 11)
     = bit (gs (leds (tlc_of ramp 0xAA True) ! 0)) (11 - 11)"
    and "take 3 (drop (3 * (7 - 7)) (fb (tlc5940_update_fb (tlc_of ramp 0xAA True))))
          = [ucast (drop_bit 4 (gs (leds (tlc_of ramp 0xAA True) ! (2 * 7 + 1)))),
               ucast ((push_bit 4 (gs (leds (tlc_of ramp 0xAA True) ! (2 * 7 + 1))) AND 0xf0)
                      OR drop_bit 8 (gs (leds (tlc_of ramp 0xAA True) ! (2 * 7)))),
               ucast (gs (leds (tlc_of ramp 0xAA True) ! (2 * 7)) AND 0xff)]"
    by blast+
  then show ?thesis
    unfolding r using wf by simp
qed

text \<open>
  With channel 0 at \<open>0xFFF\<close> and every other channel at 0, the layout the
  specification words has \<open>0xFF\<close> in byte 0; the driver leaves byte 0 at 0 and puts
  channel 0 in the last two bytes.
\<close>

theorem C1_wire_layout_counterexample:
  "fb (tlc5940_update_fb (tlc_of ch0_full 0 True)) \<noteq> spec_encode (leds (tlc_of ch0_full 0 True))
   \<and> spec_encode (leds (tlc_of ch0_full 0 True)) ! 0 = 0xFF
   \<and> fb (tlc5940_update_fb (tlc_of ch0_full 0 True)) ! 0 = 0x00
   \<and> fb (tlc5940_update_fb (tlc_of ch0_full 0 True)) ! 22 = 0x0F
   \<and> fb (tlc5940_update_fb (tlc_of ch0_full 0 True)) ! 23 = 0xFF"
proof -
  have "fb (tlc5940_update_fb (tlc_of ch0_full 0 True)) = gs_frame (leds (tlc_of ch0_full 0 True))"
    by (rule fb_update_fb) (simp add: tlc_of_def)
  also have "\<dots> = [0, 0, 0, 0, 0, 0, 0, 0, 0, 0, 0, 0, 0, 0, 0, 0, 0, 0, 0, 0, 0, 0, 0x0F, 0xFF]"
    by (simp add: gs_frame_def upt_8 GS_DUO_def gs_def tlc_of_def leds_of_def ch0_full_def)
  finally have code: "fb (tlc5940_update_fb (tlc_of ch0_full 0 True))
      = [0, 0, 0, 0, 0, 0, 0, 0, 0, 0, 0, 0, 0, 0, 0, 0, 0, 0, 0, 0, 0, 0, 0x0F, 0xFF]" .
  have spec: "spec_encode (leds (tlc_of ch0_full 0 True))
      = [0xFF, 0xF0, 0, 0, 0, 0, 0, 0, 0, 0, 0, 0, 0, 0, 0, 0, 0, 0, 0, 0, 0, 0, 0, 0]"
    by (simp add: spec_encode_def upt_8 gs_def tlc_of_def leds_of_def ch0_full_def)
  show ?thesis
    unfolding code spec by simp
qed

subsection \<open>Reference vectors\<close>

lemma map_nth_eq: "map f xs = ys \<Longrightarrow> i < length ys \<Longrightarrow> f (xs ! i) = ys ! i"
  by (metis length_map nth_map)

lemma gs_frame_of_values:
  assumes "map brightness ls = bs" and "length bs = 16"
  shows "gs_frame ls = gs_frame (leds_of bs)"
proof (rule gs_frame_cong)
  fix i :: nat
  assume "i < 16"
  then show "brightness (ls ! i) = brightness (leds_of bs ! i)"
    using assms map_nth_eq[of brightness ls bs i] by (simp add: leds_of_nth)
qed

lemmas frame_eval = gs_frame_def upt_8 GS_DUO_def gs_def leds_of_def

lemma frame_ch0_full:
  "gs_frame (leds_of ch0_full) = [0, 0, 0, 0, 0, 0, 0, 0, 0, 0, 0, 0, 0, 0, 0, 0, 0, 0, 0, 0, 0, 0, 0x0F, 0xFF]"
  by (simp add: frame_eval ch0_full_def)

lemma frame_ch15_full:
  "gs_frame (leds_of ch15_full) = [0xFF, 0xF0, 0, 0, 0, 0, 0, 0, 0, 0, 0, 0, 0, 0, 0, 0, 0, 0, 0, 0, 0, 0, 0, 0]"
  by (simp add: frame_eval ch15_full_def)

lemma frame_all_full:
  "gs_frame (leds_of all_full) = [0xFF, 0xFF, 0xFF, 0xFF, 0xFF, 0xFF, 0xFF, 0xFF, 0xFF, 0xFF, 0xFF, 0xFF,
     0xFF, 0xFF, 0xFF, 0xFF, 0xFF, 0xFF, 0xFF, 0xFF, 0xFF, 0xFF, 0xFF, 0xFF]"
  by (simp add: frame_eval all_full_def)

lemma frame_all_off:
  "gs_frame (leds_of all_off) = [0, 0, 0, 0, 0, 0, 0, 0, 0, 0, 0, 0, 0, 0, 0, 0, 0, 0, 0, 0, 0, 0, 0, 0]"
  by (simp add: frame_eval all_off_def)

text \<open>
  C2, as the code has it. Channel 0 at \<open>0xFFF\<close> and the others at 0 give
  \<open>0x0F, 0xFF\<close> in the last two bytes and \<open>0x00\<close> everywhere before; channel 15 at
  \<open>0xFFF\<close> and the others at 0 give \<open>0xFF, 0xF0\<close> in the first two bytes and \<open>0x00\<close>
  everywhere after; all channels at \<open>0xFFF\<close> give 24 bytes \<open>0xFF\<close>; all channels at 0
  give 24 bytes \<open>0x00\<close>.
\<close>

theorem C2_reference_vectors:
  assumes "tlc5940_wf tlc"
  shows "(map brightness (leds tlc) = ch0_full \<longrightarrow>
            fb (tlc5940_update_fb tlc) = replicate 22 0x00 @ [0x0F, 0xFF])
       \<and> (map brightness (leds tlc) = ch15_full \<longrightarrow>
            fb (tlc5940_update_fb tlc) = [0xFF, 0xF0] @ replicate 22 0x00)
       \<and> (map brightness (leds tlc) = all_full \<longrightarrow>
            fb (tlc5940_update_fb tlc) = replicate 24 0xFF)
       \<and> (map brightness (leds tlc) = all_off \<longrightarrow>
            fb (tlc5940_update_fb tlc) = replicate 24 0x00)"
proof -
  have fb: "fb (tlc5940_update_fb tlc) = gs_frame (leds tlc)"
    using assms by (simp add: fb_update_fb wf_lengths)
  have len: "length ch0_full = 16" "length ch15_full = 16" "length all_full = 16" "length all_off = 16"
    by (simp_all add: ch0_full_def ch15_full_def all_full_def all_off_def)
  have r22: "replicate 22 (0::u8) = [0, 0, 0, 0, 0, 0, 0, 0, 0, 0, 0, 0, 0, 0, 0, 0, 0, 0, 0, 0, 0, 0]"
    by (simp add: numeral_eq_Suc)
  have r24: "replicate 24 (x::u8) = [x, x, x, x, x, x, x, x, x, x, x, x, x, x, x, x, x, x, x, x, x, x, x, x]" for x
    by (simp add: numeral_eq_Suc)
  have "gs_frame (leds tlc) = replicate 22 0x00 @ [0x0F, 0xFF]"
    if "map brightness (leds tlc) = ch0_full"
    using gs_frame_of_values[OF that] len by (simp add: frame_ch0_full r22)
  moreover have "gs_frame (leds tlc) = [0xFF, 0xF0] @ replicate 22 0x00"
    if "map brightness (leds tlc) = ch15_full"
    using gs_frame_of_values[OF that] len by (simp add: frame_ch15_full r22)
  moreover have "gs_frame (leds tlc) = replicate 24 0xFF"
    if "map brightness (leds tlc) = all_full"
    using gs_frame_of_values[OF that] len by (simp add: frame_all_full r24)
  moreover have "gs_frame (leds tlc) = replicate 24 0x00"
    if "map brightness (leds tlc) = all_off"
    using gs_frame_of_values[OF that] len by (simp add: frame_all_off r24)
  ultimately show ?thesis
    unfolding fb by blast
qed

theorem C2_reference_vectors_witness:
  "fb (tlc5940_update_fb (tlc_of ch0_full 0xAA True)) = replicate 22 0x00 @ [0x0F, 0xFF]
   \<and> fb (tlc5940_update_fb (tlc_of ch15_full 0xAA True)) = [0xFF, 0xF0] @ replicate 22 0x00
   \<and> fb (tlc5940_update_fb (tlc_of all_full 0x00 True)) = replicate 24 0xFF
   \<and> fb (tlc5940_update_fb (tlc_of all_off 0xFF True)) = replicate 24 0x00"
proof -
  have wf: "tlc5940_wf (tlc_of ch0_full 0xAA True)" "tlc5940_wf (tlc_of ch15_full 0xAA True)"
    "tlc5940_wf (tlc_of all_full 0x00 True)" "tlc5940_wf (tlc_of all_off 0xFF True)"
    by (simp_all add: wf_tlc_of ch0_full_def ch15_full_def all_full_def all_off_def)
  have b: "map brightness (leds (tlc_of bs fill dirty)) = bs" for bs fill dirty
    by (simp add: tlc_of_def brightness_leds_of)
  show ?thesis
    using C2_reference_vectors[OF wf(1)] C2_reference_vectors[OF wf(2)]
      C2_reference_vectors[OF wf(3)] C2_reference_vectors[OF wf(4)]
    by (simp only: b simp_thms)
qed

text \<open>
  The first two reference vectors of the specification fail on the driver: with
  channel 0 at \<open>0xFFF\<close> the first two bytes are \<open>0x00, 0x00\<close>, and with channel 15 at
  \<open>0xFFF\<close> the last byte is \<open>0x00\<close>.
\<close>

theorem C2_reference_vectors_counterexample:
  "take 2 (fb (tlc5940_update_fb (tlc_of ch0_full 0 True))) \<noteq> [0xFF, 0xF0]
   \<and> take 2 (fb (tlc5940_update_fb (tlc_of ch0_full 0 True))) = [0x00, 0x00]
   \<and> last (fb (tlc5940_update_fb (tlc_of ch15_full 0 True))) \<noteq> 0xFF
   \<and> last (fb (tlc5940_update_fb (tlc_of ch15_full 0 True))) = 0x00"
proof -
  have "fb (tlc5940_update_fb (tlc_of ch0_full 0 True)) = gs_frame (leds_of ch0_full)"
    "fb (tlc5940_update_fb (tlc_of ch15_full 0 True)) = gs_frame (leds_of ch15_full)"
    by (simp_all add: fb_update_fb tlc_of_def)
  then show ?thesis
    by (simp add: frame_ch0_full frame_ch15_full)
qed

subsection \<open>Values outside the 12-bit range\<close>

text \<open>
  C10. Whatever 32-bit value is stored for a channel, the encoder packs the value
  modulo 4096 (the value \<open>AND 0xfff\<close>) into the 12-bit field of the channel;
  \<open>tlc5940_set_brightness\<close> stores its argument as it came, so an argument outside
  \<open>[0, 4095]\<close> wraps in the frame and does not saturate.
\<close>

theorem C10_encoder_wraps:
  assumes "tlc5940_wf tlc" and "n < TLC5940_MAX_LEDS"
  shows "int (gs_field (fb (tlc5940_update_fb tlc)) n) = sint (brightness (leds tlc ! n)) mod 4096
       \<and> int (gs_field (fb (tlc5940_update_fb tlc)) n) = uint (brightness (leds tlc ! n) AND 0xfff)
       \<and> brightness (leds (tlc5940_set_brightness tlc n v) ! n) = v
       \<and> int (gs_field (fb (tlc5940_update_fb (tlc5940_set_brightness tlc n v))) n) = sint v mod 4096"
proof -
  have n: "n < 16" "n < length (leds tlc)"
    using assms by (simp_all add: wf_lengths TLC5940_MAX_LEDS_def)
  have field: "int (gs_field (fb (tlc5940_update_fb t)) n) = sint (brightness (leds t ! n)) mod 4096"
    if "tlc5940_wf t" for t
  proof -
    have "fb (tlc5940_update_fb t) = gs_frame (leds t)"
      using that by (simp add: fb_update_fb wf_lengths)
    then show ?thesis
      using gs_field_gs_frame[OF n(1), of "leds t"] uint_gs[of "leds t ! n"]
      by simp
  qed
  have "uint (brightness (leds tlc ! n) AND 0xfff) = sint (brightness (leds tlc ! n)) mod 4096"
    using uint_gs[of "leds tlc ! n"] by (simp add: gs_mask mask_fff)
  moreover have "brightness (leds (tlc5940_set_brightness tlc n v) ! n) = v"
    using n by simp
  ultimately show ?thesis
    using field[OF assms(1)] field[of "tlc5940_set_brightness tlc n v"] assms(1)
    by simp
qed

theorem C10_encoder_wraps_witness:
  "gs_field (fb (tlc5940_update_fb (tlc5940_set_brightness (tlc_of all_full 0 False) 3 4096))) 3 = 0
   \<and> gs_field (fb (tlc5940_update_fb (tlc5940_set_brightness (tlc_of all_full 0 False) 3 5000))) 3 = 904
   \<and> gs_field (fb (tlc5940_update_fb (tlc5940_set_brightness (tlc_of all_full 0 False) 3 (- 1)))) 3 = 4095
   \<and> brightness (leds (tlc5940_set_brightness (tlc_of all_full 0 False) 3 4096) ! 3) = 4096"
proof -
  have wf: "tlc5940_wf (tlc_of all_full 0 False)"
    by (simp add: wf_tlc_of all_full_def)
  have n: "(3::nat) < TLC5940_MAX_LEDS"
    by (simp add: TLC5940_MAX_LEDS_def)
  show ?thesis
    using C10_encoder_wraps[OF wf n, of 4096] C10_encoder_wraps[OF wf n, of 5000]
      C10_encoder_wraps[OF wf n, of "- 1"]
    by simp
qed

section \<open>Lemmas about the timer, the work item and the dispatch\<close>

lemma blank_period: "TLC5940_BLANK_PERIOD_NS = 1638400"
  by (simp add: TLC5940_BLANK_PERIOD_NS_def TLC5940_GSCLK_PERIOD_NS_def TLC5940_GSCLK_SPEED_HZ_def)

lemma timer_func_valid:
  "v (gpio_blank tlc) \<Longrightarrow>
   tlc5940_timer_func v tlc =
     ([Hrtimer_forward_now TLC5940_BLANK_PERIOD_NS,
       Gpio_set_value (gpio_blank tlc) 1, Gpio_set_value (gpio_blank tlc) 0]
        @ (if new_gs_data tlc then [Schedule_work] else []),
      HRTIMER_RESTART)"
  by (simp add: tlc5940_timer_func_def)

lemma timer_func_invalid:
  "\<not> v (gpio_blank tlc) \<Longrightarrow>
   tlc5940_timer_func v tlc =
     ([Hrtimer_forward_now TLC5940_BLANK_PERIOD_NS, Dev_err ''invalid gpio, expiring timer''],
      HRTIMER_NORESTART)"
  by (simp add: tlc5940_timer_func_def)

lemma work_wf:
  assumes "tlc5940_wf tlc"
  shows "tlc5940_work ret tlc =
     (if ret \<noteq> 0
      then (tlc\<lparr>fb := gs_frame (leds tlc)\<rparr>,
            [Spi_write (gs_frame (leds tlc)), Dev_err ''spi transfer error''])
      else (tlc\<lparr>fb := gs_frame (leds tlc), new_gs_data := False\<rparr>,
            [Spi_write (gs_frame (leds tlc))]))"
proof -
  have "tlc5940_update_fb tlc = tlc\<lparr>fb := gs_frame (leds tlc)\<rparr>"
    using assms by (simp add: tlc5940_update_fb_def update_fb_loop_frame wf_lengths)
  then show ?thesis
    by (simp add: tlc5940_work_def Let_def TLC5940_FB_SIZE_def TLC5940_FB_SIZE_BITS_def
        TLC5940_MAX_LEDS_def TLC5940_GS_CHANNEL_WIDTH_def)
qed

lemma transmits_simps [simp]:
  "transmits [] = []"
  "transmits (Spi_write bs # t) = bs # transmits t"
  "transmits (Hrtimer_forward_now p # t) = transmits t"
  "transmits (Gpio_set_value g x # t) = transmits t"
  "transmits (Schedule_work # t) = transmits t"
  "transmits (Schedule_led_work n # t) = transmits t"
  "transmits (Dev_err m # t) = transmits t"
  "transmits (t1 @ t2) = transmits t1 @ transmits t2"
  by (simp_all add: transmits_def)

lemma run_simps [simp]:
  "run v d [] = d"
  "run v d (c # cs) = run v (dispatch v d c) cs"
  "run v d (cs @ cs') = run v (run v d cs) cs'"
  by (simp_all add: run_def)

lemma is_brightness_setE:
  assumes "is_brightness_set c"
  obtains n b where "c = Brightness_set n b" "n < TLC5940_MAX_LEDS"
  using assms by (cases c) simp_all

lemma run_sets:
  assumes "\<forall>c\<in>set cs. is_brightness_set c"
  shows "trace (run v d cs) = trace d"
    and "timer_armed (run v d cs) = timer_armed d"
    and "work_pending (run v d cs) = work_pending d"
    and "gpio_blank (dev (run v d cs)) = gpio_blank (dev d)"
    and "fb (dev (run v d cs)) = fb (dev d)"
    and "tlc5940_wf (dev (run v d cs)) = tlc5940_wf (dev d)"
    and "new_gs_data (dev (run v d cs)) = (cs \<noteq> [] \<or> new_gs_data (dev d))"
  using assms
  by (induction cs arbitrary: d; auto elim!: is_brightness_setE)+

lemma run_sets_leds:
  assumes "\<forall>c\<in>set cs. is_brightness_set c" and "n < length (leds (dev d))"
  shows "brightness (leds (dev (run v d cs)) ! n) =
         (case last_set cs n of Some b \<Rightarrow> b | None \<Rightarrow> brightness (leds (dev d) ! n))"
  using assms
proof (induction cs arbitrary: d)
  case Nil
  then show ?case by simp
next
  case (Cons c cs)
  from Cons.prems(1) obtain m b where c: "c = Brightness_set m b"
    by (auto elim: is_brightness_setE)
  have "brightness (leds (dev (dispatch v d c)) ! n) = (if m = n then b else brightness (leds (dev d) ! n))"
    using Cons.prems(2) by (simp add: c nth_list_update)
  moreover have "brightness (leds (dev (run v (dispatch v d c) cs)) ! n) =
      (case last_set cs n of Some b \<Rightarrow> b | None \<Rightarrow> brightness (leds (dev (dispatch v d c)) ! n))"
    using Cons.prems by (intro Cons.IH) (simp_all add: c)
  ultimately show ?case
    using Cons.prems(2) by (simp add: c split: option.splits)
qed

lemma tick_dirty:
  assumes "v (gpio_blank (dev d))" and "timer_armed d" and "tlc5940_wf (dev d)"
    and "new_gs_data (dev d)"
  shows "run v d [Timer_expiry, Work_run ret] =
         d\<lparr>dev := (dev d)\<lparr>fb := gs_frame (leds (dev d)), new_gs_data := (ret \<noteq> 0)\<rparr>,
           timer_armed := True,
           work_pending := False,
           trace := trace d @
             [Hrtimer_forward_now TLC5940_BLANK_PERIOD_NS,
              Gpio_set_value (gpio_blank (dev d)) 1, Gpio_set_value (gpio_blank (dev d)) 0,
              Schedule_work, Spi_write (gs_frame (leds (dev d)))]
             @ (if ret \<noteq> 0 then [Dev_err ''spi transfer error''] else [])\<rparr>"
  using assms by (simp add: timer_func_valid work_wf)

lemma tick_clean:
  assumes "v (gpio_blank (dev d))" and "timer_armed d"
    and "\<not> new_gs_data (dev d)" and "\<not> work_pending d"
  shows "run v d [Timer_expiry, Work_run ret] =
         d\<lparr>timer_armed := True,
           work_pending := False,
           trace := trace d @
             [Hrtimer_forward_now TLC5940_BLANK_PERIOD_NS,
              Gpio_set_value (gpio_blank (dev d)) 1, Gpio_set_value (gpio_blank (dev d)) 0]\<rparr>"
  using assms by (simp add: timer_func_valid)

subsection \<open>A failed transfer\<close>

text \<open>
  C5. When \<open>spi_write\<close> fails in the work item of a tick, the flag stays set, the
  channel values are untouched and the frame buffer holds their encoding, the error
  is reported, and the timer stays armed: the next tick pulses BLANK and transmits
  again, with the channel values as they are by then.
\<close>

theorem C5_transport_error:
  assumes "v (gpio_blank (dev d))" and "timer_armed d" and "tlc5940_wf (dev d)"
    and "new_gs_data (dev d)" and "ret \<noteq> 0" and "\<forall>c\<in>set cs. is_brightness_set c"
  shows "new_gs_data (dev (run v d [Timer_expiry, Work_run ret]))
       \<and> leds (dev (run v d [Timer_expiry, Work_run ret])) = leds (dev d)
       \<and> fb (dev (run v d [Timer_expiry, Work_run ret])) = gs_frame (leds (dev d))
       \<and> timer_armed (run v d [Timer_expiry, Work_run ret])
       \<and> trace (run v d [Timer_expiry, Work_run ret]) =
           trace d @ [Hrtimer_forward_now TLC5940_BLANK_PERIOD_NS,
                      Gpio_set_value (gpio_blank (dev d)) 1, Gpio_set_value (gpio_blank (dev d)) 0,
                      Schedule_work, Spi_write (gs_frame (leds (dev d))),
                      Dev_err ''spi transfer error'']
       \<and> transmits (trace (run v (run v d [Timer_expiry, Work_run ret])
                                 (cs @ [Timer_expiry, Work_run ret2])))
           = transmits (trace d)
             @ [gs_frame (leds (dev d)),
                gs_frame (leds (dev (run v (run v d [Timer_expiry, Work_run ret]) cs)))]"
proof -
  define d1 where "d1 = run v d [Timer_expiry, Work_run ret]"
  have d1: "d1 =
         d\<lparr>dev := (dev d)\<lparr>fb := gs_frame (leds (dev d)), new_gs_data := True\<rparr>,
           timer_armed := True,
           work_pending := False,
           trace := trace d @
             [Hrtimer_forward_now TLC5940_BLANK_PERIOD_NS,
              Gpio_set_value (gpio_blank (dev d)) 1, Gpio_set_value (gpio_blank (dev d)) 0,
              Schedule_work, Spi_write (gs_frame (leds (dev d))), Dev_err ''spi transfer error'']\<rparr>"
    unfolding d1_def using tick_dirty[of v d ret] assms(1-5) by simp
  have wf1: "tlc5940_wf (dev d1)"
    unfolding d1 using assms(3) by (simp add: tlc5940_wf_def layout_consts)
  define d2 where "d2 = run v d1 cs"
  have pre2: "v (gpio_blank (dev d2))" "timer_armed d2" "tlc5940_wf (dev d2)"
    "new_gs_data (dev d2)" "trace d2 = trace d1"
    unfolding d2_def run_sets[OF assms(6)] using wf1 assms(1) by (simp_all add: d1)
  have "transmits (trace (run v d2 [Timer_expiry, Work_run ret2]))
        = transmits (trace d1) @ [gs_frame (leds (dev d2))]"
    using tick_dirty[of v d2 ret2] pre2 by simp
  then have "transmits (trace (run v d1 (cs @ [Timer_expiry, Work_run ret2])))
        = transmits (trace d) @ [gs_frame (leds (dev d)), gs_frame (leds (dev (run v d1 cs)))]"
    unfolding run_simps(3) d2_def[symmetric] by (simp add: d1)
  moreover have "new_gs_data (dev d1)" "leds (dev d1) = leds (dev d)"
    "fb (dev d1) = gs_frame (leds (dev d))" "timer_armed d1"
    "trace d1 = trace d @ [Hrtimer_forward_now TLC5940_BLANK_PERIOD_NS,
                      Gpio_set_value (gpio_blank (dev d)) 1, Gpio_set_value (gpio_blank (dev d)) 0,
                      Schedule_work, Spi_write (gs_frame (leds (dev d))),
                      Dev_err ''spi transfer error'']"
    by (simp_all add: d1)
  ultimately show ?thesis
    unfolding d1_def by (intro conjI)
qed

lemma driver_of_simps [simp]:
  "dev (driver_of tlc) = tlc" "timer_armed (driver_of tlc)" "\<not> work_pending (driver_of tlc)"
  "trace (driver_of tlc) = []"
  by (simp_all add: driver_of_def)

lemma tlc_of_simps [simp]:
  "gpio_blank (tlc_of bs fill dirty) = 17" "new_gs_data (tlc_of bs fill dirty) = dirty"
  "leds (tlc_of bs fill dirty) = leds_of bs" "fb (tlc_of bs fill dirty) = replicate 24 fill"
  by (simp_all add: tlc_of_def)

lemma gpio_17 [simp]: "gpio_in_range 17"
  by (simp add: gpio_in_range_def)

lemma wf_examples [simp]:
  "tlc5940_wf (tlc_of ramp fill dirty)" "tlc5940_wf (tlc_of all_off fill dirty)"
  "tlc5940_wf (tlc_of all_full fill dirty)" "tlc5940_wf (tlc_of ch0_full fill dirty)"
  by (simp_all add: wf_tlc_of ramp_def all_off_def all_full_def ch0_full_def)

theorem C5_transport_error_witness:
  "new_gs_data (dev (run gpio_in_range (driver_of (tlc_of ch0_full 0 True)) [Timer_expiry, Work_run (- EIO)]))
   \<and> timer_armed (run gpio_in_range (driver_of (tlc_of ch0_full 0 True)) [Timer_expiry, Work_run (- EIO)])
   \<and> fb (dev (run gpio_in_range (driver_of (tlc_of ch0_full 0 True)) [Timer_expiry, Work_run (- EIO)]))
     = [0, 0, 0, 0, 0, 0, 0, 0, 0, 0, 0, 0, 0, 0, 0, 0, 0, 0, 0, 0, 0, 0, 0x0F, 0xFF]
   \<and> transmits (trace (run gpio_in_range
         (run gpio_in_range (driver_of (tlc_of ch0_full 0 True)) [Timer_expiry, Work_run (- EIO)])
         ([] @ [Timer_expiry, Work_run 0])))
     = [[0, 0, 0, 0, 0, 0, 0, 0, 0, 0, 0, 0, 0, 0, 0, 0, 0, 0, 0, 0, 0, 0, 0x0F, 0xFF],
        [0, 0, 0, 0, 0, 0, 0, 0, 0, 0, 0, 0, 0, 0, 0, 0, 0, 0, 0, 0, 0, 0, 0x0F, 0xFF]]"
proof -
  define D where "D = driver_of (tlc_of ch0_full 0 True)"
  define D1 where "D1 = run gpio_in_range D [Timer_expiry, Work_run (- EIO)]"
  have h: "gpio_in_range (gpio_blank (dev D))" "timer_armed D" "tlc5940_wf (dev D)"
    "new_gs_data (dev D)" "- EIO \<noteq> 0" "\<forall>c\<in>set []. is_brightness_set c"
    by (simp_all add: EIO_def D_def)
  have D: "leds (dev D) = leds_of ch0_full" "trace D = []"
    by (simp_all add: D_def)
  from C5_transport_error[of gpio_in_range D "- EIO" "[]" 0, OF h, folded D1_def]
  have "new_gs_data (dev D1)" and "timer_armed D1"
    and l: "leds (dev D1) = leds (dev D)"
    and "fb (dev D1) = gs_frame (leds (dev D))"
    and "transmits (trace (run gpio_in_range D1 ([] @ [Timer_expiry, Work_run 0])))
         = transmits (trace D) @ [gs_frame (leds (dev D)), gs_frame (leds (dev (run gpio_in_range D1 [])))]"
    by blast+
  then show ?thesis
    unfolding D1_def[symmetric] D_def[symmetric]
    by (simp only: run_simps(1) l D frame_ch0_full transmits_simps(1) append_Nil simp_thms)
qed

subsection \<open>Coalescing of brightness updates\<close>

text \<open>
  C6. Any number \<open>N \<ge> 1\<close> of \<open>tlc5940_set_brightness\<close> calls between two ticks makes
  no call to the hardware; the tick that follows issues exactly one \<open>spi_write\<close>,
  and its bytes are the encoding of the channel values as they stand after the
  last of the calls: the field of channel \<open>n\<close> is the last value set for \<open>n\<close> (or
  the earlier value if \<open>n\<close> was not set), modulo 4096.
\<close>

theorem C6_coalescing:
  assumes "v (gpio_blank (dev d))" and "timer_armed d" and "tlc5940_wf (dev d)"
    and "cs \<noteq> []" and "\<forall>c\<in>set cs. is_brightness_set c"
  shows "trace (run v d cs) = trace d
       \<and> transmits (trace (run v d (cs @ [Timer_expiry, Work_run ret])))
           = transmits (trace d) @ [fb (tlc5940_update_fb (dev (run v d cs)))]
       \<and> (\<forall>n<TLC5940_MAX_LEDS.
             int (gs_field (fb (tlc5940_update_fb (dev (run v d cs)))) n)
             = sint (case last_set cs n of Some b \<Rightarrow> b | None \<Rightarrow> brightness (leds (dev d) ! n))
               mod 4096)"
proof -
  define d1 where "d1 = run v d cs"
  have pre: "v (gpio_blank (dev d1))" "timer_armed d1" "tlc5940_wf (dev d1)"
    "new_gs_data (dev d1)" "trace d1 = trace d"
    unfolding d1_def run_sets[OF assms(5)] using assms(1-4) by simp_all
  have fb1: "fb (tlc5940_update_fb (dev d1)) = gs_frame (leds (dev d1))"
    using pre(3) by (simp add: fb_update_fb wf_lengths)
  have "transmits (trace (run v d1 [Timer_expiry, Work_run ret]))
        = transmits (trace d) @ [gs_frame (leds (dev d1))]"
    using tick_dirty[of v d1 ret] pre by simp
  then have one: "transmits (trace (run v d (cs @ [Timer_expiry, Work_run ret])))
        = transmits (trace d) @ [fb (tlc5940_update_fb (dev d1))]"
    unfolding run_simps(3) d1_def[symmetric] fb1 .
  have field: "int (gs_field (fb (tlc5940_update_fb (dev d1))) n)
             = sint (case last_set cs n of Some b \<Rightarrow> b | None \<Rightarrow> brightness (leds (dev d) ! n))
               mod 4096"
    if n: "n < TLC5940_MAX_LEDS" for n
  proof -
    have "n < length (leds (dev d))"
      using n assms(3) by (simp add: tlc5940_wf_def)
    then have "brightness (leds (dev d1) ! n)
        = (case last_set cs n of Some b \<Rightarrow> b | None \<Rightarrow> brightness (leds (dev d) ! n))"
      unfolding d1_def using assms(5) by (rule run_sets_leds[rotated])
    moreover have "int (gs_field (fb (tlc5940_update_fb (dev d1))) n)
        = sint (brightness (leds (dev d1) ! n)) mod 4096"
      using n gs_field_gs_frame[of n "leds (dev d1)"] uint_gs[of "leds (dev d1) ! n"]
      by (simp add: fb1 TLC5940_MAX_LEDS_def)
    ultimately show ?thesis by simp
  qed
  show ?thesis
    using pre(5) one field unfolding d1_def by blast
qed

theorem C6_coalescing_witness:
  "trace (run gpio_in_range (driver_of (tlc_of ch0_full 0 False)) three_sets) = []
   \<and> transmits (trace (run gpio_in_range (driver_of (tlc_of ch0_full 0 False))
                          (three_sets @ [Timer_expiry, Work_run 0])))
     = [fb (tlc5940_update_fb (dev (run gpio_in_range (driver_of (tlc_of ch0_full 0 False)) three_sets)))]
   \<and> gs_field (fb (tlc5940_update_fb (dev (run gpio_in_range (driver_of (tlc_of ch0_full 0 False)) three_sets)))) 0 = 0
   \<and> gs_field (fb (tlc5940_update_fb (dev (run gpio_in_range (driver_of (tlc_of ch0_full 0 False)) three_sets)))) 15 = 0xFFF"
proof -
  define D where "D = driver_of (tlc_of ch0_full 0 False)"
  define D1 where "D1 = run gpio_in_range D three_sets"
  have h: "gpio_in_range (gpio_blank (dev D))" "timer_armed D" "tlc5940_wf (dev D)"
    "three_sets \<noteq> []" "\<forall>c\<in>set three_sets. is_brightness_set c"
    by (simp_all add: D_def three_sets_def TLC5940_MAX_LEDS_def)
  have n: "(0::nat) < TLC5940_MAX_LEDS" "(15::nat) < TLC5940_MAX_LEDS"
    by (simp_all add: TLC5940_MAX_LEDS_def)
  have l: "last_set three_sets 0 = Some 0" "last_set three_sets 15 = Some 0xFFF"
    by (simp_all add: three_sets_def)
  from C6_coalescing[of gpio_in_range D three_sets 0, OF h, folded D1_def]
  have "trace D1 = trace D"
    and "transmits (trace (run gpio_in_range D (three_sets @ [Timer_expiry, Work_run 0])))
         = transmits (trace D) @ [fb (tlc5940_update_fb (dev D1))]"
    and "\<forall>n<TLC5940_MAX_LEDS.
             int (gs_field (fb (tlc5940_update_fb (dev D1))) n)
             = sint (case last_set three_sets n of Some b \<Rightarrow> b | None \<Rightarrow> brightness (leds (dev D) ! n))
               mod 4096"
    by blast+
  moreover have "trace D = []"
    by (simp add: D_def)
  ultimately have "trace D1 = []"
    and "transmits (trace (run gpio_in_range D (three_sets @ [Timer_expiry, Work_run 0])))
         = [fb (tlc5940_update_fb (dev D1))]"
    and "int (gs_field (fb (tlc5940_update_fb (dev D1))) 0) = 0"
    and "int (gs_field (fb (tlc5940_update_fb (dev D1))) 15) = 0xFFF"
    using n l by simp_all
  then show ?thesis
    unfolding D1_def[symmetric] D_def[symmetric]
    by (simp only: of_nat_eq_0_iff of_nat_eq_numeral_iff simp_thms)
qed

subsection \<open>The BLANK pulse\<close>

text \<open>
  C7, as the code has it. On a tick whose BLANK GPIO is valid, the callback first
  forwards the timer by one blank period and then writes BLANK high and low, and it
  returns \<open>HRTIMER_RESTART\<close>; this is so whatever the dirty flag is and whatever
  the work item did before, a failed transmit included. When the flag is clear and
  no work is pending, the tick pulses BLANK and issues no \<open>spi_write\<close>. On a tick
  whose GPIO is not valid there is no pulse and the timer is not restarted.
\<close>

theorem C7_blank_pulse:
  assumes "timer_armed d"
  shows "(v (gpio_blank (dev d)) \<longrightarrow>
            trace (dispatch v d Timer_expiry) =
              trace d @ [Hrtimer_forward_now TLC5940_BLANK_PERIOD_NS,
                         Gpio_set_value (gpio_blank (dev d)) 1,
                         Gpio_set_value (gpio_blank (dev d)) 0]
                      @ (if new_gs_data (dev d) then [Schedule_work] else [])
          \<and> timer_armed (dispatch v d Timer_expiry)
          \<and> trace (run v d [Work_run ret0, Timer_expiry]) =
              trace (dispatch v d (Work_run ret0))
                @ [Hrtimer_forward_now TLC5940_BLANK_PERIOD_NS,
                   Gpio_set_value (gpio_blank (dev d)) 1,
                   Gpio_set_value (gpio_blank (dev d)) 0]
                @ (if new_gs_data (dev (dispatch v d (Work_run ret0))) then [Schedule_work] else [])
          \<and> (\<not> new_gs_data (dev d) \<and> \<not> work_pending d \<longrightarrow>
                transmits (trace (run v d [Timer_expiry, Work_run ret])) = transmits (trace d)
              \<and> pulsed (gpio_blank (dev d)) (drop (length (trace d))
                                               (trace (run v d [Timer_expiry, Work_run ret])))))
       \<and> (\<not> v (gpio_blank (dev d)) \<longrightarrow>
            trace (dispatch v d Timer_expiry) =
              trace d @ [Hrtimer_forward_now TLC5940_BLANK_PERIOD_NS,
                         Dev_err ''invalid gpio, expiring timer'']
          \<and> \<not> timer_armed (dispatch v d Timer_expiry))"
proof -
  have work_keeps: "timer_armed (dispatch v d (Work_run ret0))"
    "gpio_blank (dev (dispatch v d (Work_run ret0))) = gpio_blank (dev d)"
    using assms by (simp_all add: tlc5940_work_def Let_def)
  have tick: "trace (dispatch v d' Timer_expiry) =
              trace d' @ [Hrtimer_forward_now TLC5940_BLANK_PERIOD_NS,
                         Gpio_set_value (gpio_blank (dev d')) 1,
                         Gpio_set_value (gpio_blank (dev d')) 0]
                      @ (if new_gs_data (dev d') then [Schedule_work] else [])"
    "timer_armed (dispatch v d' Timer_expiry)"
    if "v (gpio_blank (dev d'))" "timer_armed d'" for d'
    using that by (simp_all add: timer_func_valid)
  have after_work: "trace (run v d [Work_run ret0, Timer_expiry]) =
              trace (dispatch v d (Work_run ret0))
                @ [Hrtimer_forward_now TLC5940_BLANK_PERIOD_NS,
                   Gpio_set_value (gpio_blank (dev d)) 1,
                   Gpio_set_value (gpio_blank (dev d)) 0]
                @ (if new_gs_data (dev (dispatch v d (Work_run ret0))) then [Schedule_work] else [])"
    if "v (gpio_blank (dev d))"
    using tick(1)[of "dispatch v d (Work_run ret0)"] that work_keeps
    by (simp del: dispatch.simps)
  have clean: "transmits (trace (run v d [Timer_expiry, Work_run ret])) = transmits (trace d)
              \<and> pulsed (gpio_blank (dev d)) (drop (length (trace d))
                                               (trace (run v d [Timer_expiry, Work_run ret])))"
    if "v (gpio_blank (dev d))" "\<not> new_gs_data (dev d)" "\<not> work_pending d"
    unfolding tick_clean[of v d ret, OF that(1) assms that(2,3)] by (simp add: pulsed_def)
  have invalid: "trace (dispatch v d Timer_expiry) =
              trace d @ [Hrtimer_forward_now TLC5940_BLANK_PERIOD_NS,
                         Dev_err ''invalid gpio, expiring timer'']"
    "\<not> timer_armed (dispatch v d Timer_expiry)"
    if "\<not> v (gpio_blank (dev d))"
    using that assms by (simp_all add: timer_func_invalid)
  show ?thesis
    using tick[of d] assms after_work clean invalid by blast
qed

lemma not_gpio_600 [simp]: "\<not> gpio_in_range 600"
  by (simp add: gpio_in_range_def)

theorem C7_blank_pulse_witness:
  "trace (dispatch gpio_in_range (driver_of (tlc_of all_off 0 False)) Timer_expiry)
     = [Hrtimer_forward_now 1638400, Gpio_set_value 17 1, Gpio_set_value 17 0]
   \<and> timer_armed (dispatch gpio_in_range (driver_of (tlc_of all_off 0 False)) Timer_expiry)
   \<and> transmits (trace (run gpio_in_range (driver_of (tlc_of all_off 0 False)) [Timer_expiry, Work_run 0])) = []
   \<and> trace (dispatch gpio_in_range (driver_of tlc_bad_gpio) Timer_expiry)
     = [Hrtimer_forward_now 1638400, Dev_err ''invalid gpio, expiring timer'']
   \<and> \<not> timer_armed (dispatch gpio_in_range (driver_of tlc_bad_gpio) Timer_expiry)"
proof -
  define D where "D = driver_of (tlc_of all_off 0 False)"
  define B where "B = driver_of tlc_bad_gpio"
  have h: "timer_armed D" "timer_armed B"
    by (simp_all add: D_def B_def)
  have g: "gpio_in_range (gpio_blank (dev D))" "\<not> gpio_in_range (gpio_blank (dev B))"
    "\<not> new_gs_data (dev D)" "\<not> work_pending D" "trace D = []" "trace B = []"
    "gpio_blank (dev D) = 17"
    by (simp_all add: D_def B_def tlc_bad_gpio_def)
  from C7_blank_pulse[of D gpio_in_range 0 0, OF h(1)] g
  have "trace (dispatch gpio_in_range D Timer_expiry)
          = [Hrtimer_forward_now 1638400, Gpio_set_value 17 1, Gpio_set_value 17 0]"
    and "timer_armed (dispatch gpio_in_range D Timer_expiry)"
    and "transmits (trace (run gpio_in_range D [Timer_expiry, Work_run 0])) = []"
    by (simp_all add: blank_period del: dispatch.simps run_simps)
  moreover from C7_blank_pulse[of B gpio_in_range 0 0, OF h(2)] g
  have "trace (dispatch gpio_in_range B Timer_expiry)
          = [Hrtimer_forward_now 1638400, Dev_err ''invalid gpio, expiring timer'']"
    and "\<not> timer_armed (dispatch gpio_in_range B Timer_expiry)"
    by (simp_all add: blank_period del: dispatch.simps run_simps)
  ultimately show ?thesis
    unfolding D_def B_def by (intro conjI)
qed

text \<open>
  On a tick with a valid GPIO the timer is forwarded before BLANK is written, not
  after; and on a tick with an invalid GPIO BLANK is not written at all.
\<close>

theorem C7_blank_pulse_counterexample:
  "\<not> pulse_before_rearm 17 (fst (tlc5940_timer_func gpio_in_range (tlc_of all_off 0 False)))
   \<and> fst (tlc5940_timer_func gpio_in_range (tlc_of all_off 0 False))
     = [Hrtimer_forward_now 1638400, Gpio_set_value 17 1, Gpio_set_value 17 0]
   \<and> \<not> pulsed 600 (fst (tlc5940_timer_func gpio_in_range tlc_bad_gpio))"
  by (simp add: timer_func_valid timer_func_invalid tlc_bad_gpio_def blank_period
      pulse_before_rearm_def pulsed_def)

subsection \<open>The dirty flag from setup to the first tick\<close>

lemma probe_children_Bound:
  "probe_children rs i tlc = Bound tlc' \<Longrightarrow>
   new_gs_data tlc' = new_gs_data tlc \<and> gpio_blank tlc' = gpio_blank tlc
   \<and> fb tlc' = fb tlc \<and> length (leds tlc') = length (leds tlc)"
proof (induction rs arbitrary: i tlc)
  case Nil
  then show ?case by simp
next
  case (Cons r rs)
  from Cons.prems have i: "i < length (leds tlc)" and r: "\<not> r < 0"
    by (auto simp: Let_def split: if_splits)
  let ?t = "tlc\<lparr>leds := (leds tlc)[i := \<lparr>led_id = int i, brightness = LED_OFF\<rparr>]\<rparr>"
  from Cons.prems i r have "probe_children rs (Suc i) ?t = Bound tlc'"
    by (simp add: Let_def)
  from Cons.IH[OF this] show ?case by simp
qed

lemma probe_Bound:
  assumes "tlc5940_probe env = Bound d0"
  shows "new_gs_data (dev d0)" and "timer_armed d0" and "\<not> work_pending d0"
    and "trace d0 = []" and "tlc5940_wf (dev d0)"
    and "gpio_blank (dev d0) = of_get_named_gpio env" and "0 \<le> of_get_named_gpio env"
proof -
  let ?t2 = "kzalloc_tlc5940\<lparr>gpio_blank := of_get_named_gpio env, new_gs_data := True\<rparr>"
  from assms obtain tlc3 where
    c: "probe_children (led_classdev_register env) 0 ?t2 = Bound tlc3"
    and d0: "d0 = \<lparr>dev = tlc3, timer_armed = True, work_pending = False, trace = []\<rparr>"
    and g: "0 \<le> of_get_named_gpio env"
    by (auto simp: tlc5940_probe_def Let_def split: if_splits outcome.splits)
  from probe_children_Bound[OF c]
  show "new_gs_data (dev d0)" "timer_armed d0" "\<not> work_pending d0" "trace d0 = []"
    "tlc5940_wf (dev d0)" "gpio_blank (dev d0) = of_get_named_gpio env"
    "0 \<le> of_get_named_gpio env"
    using g by (simp_all add: d0 tlc5940_wf_def kzalloc_tlc5940_def)
qed

lemma flag_cleared_only_by_work:
  assumes "new_gs_data (dev d)" and "\<not> new_gs_data (dev (dispatch v d c))"
  shows "c = Work_run 0 \<and> work_pending d
       \<and> trace (dispatch v d c) = trace d @ [Spi_write (take TLC5940_FB_SIZE (fb (dev (dispatch v d c))))]"
proof (cases c)
  case Timer_expiry
  with assms show ?thesis
    by (auto split: if_splits prod.splits)
next
  case (Work_run r)
  with assms show ?thesis
    by (auto simp: tlc5940_work_def Let_def split: if_splits)
next
  case (Brightness_set n b)
  with assms show ?thesis by simp
qed

text \<open>
  C4. \<open>new_gs_data\<close> is set by every \<open>tlc5940_set_brightness\<close>; a call of the driver
  that clears it is the work item running with \<open>spi_write\<close> returning 0, right
  after that write; a successful \<open>tlc5940_probe\<close> leaves it set. The first tick
  after a successful probe therefore issues one \<open>spi_write\<close>, whether or not (and
  however often) a brightness was set before it, given that the BLANK GPIO the
  probe requested is a valid one.
\<close>

theorem C4_dirty_flag:
  assumes "tlc5940_probe env = Bound d0" and "v (gpio_blank (dev d0))"
    and "\<forall>c\<in>set cs. is_brightness_set c"
  shows "new_gs_data (dev d0)
       \<and> new_gs_data (tlc5940_set_brightness tlc n b)
       \<and> new_gs_data (fst (tlc5940_work r tlc)) = (r \<noteq> 0 \<and> new_gs_data tlc)
       \<and> (new_gs_data (dev d) \<and> \<not> new_gs_data (dev (dispatch v d c)) \<longrightarrow>
             c = Work_run 0 \<and> work_pending d
             \<and> trace (dispatch v d c)
               = trace d @ [Spi_write (take TLC5940_FB_SIZE (fb (dev (dispatch v d c))))])
       \<and> transmits (trace (run v d0 (cs @ [Timer_expiry, Work_run ret])))
           = [fb (tlc5940_update_fb (dev (run v d0 cs)))]"
proof -
  note p = probe_Bound[OF assms(1)]
  define d1 where "d1 = run v d0 cs"
  have pre: "v (gpio_blank (dev d1))" "timer_armed d1" "tlc5940_wf (dev d1)"
    "new_gs_data (dev d1)" "trace d1 = []"
    unfolding d1_def run_sets[OF assms(3)] using p assms(2) by simp_all
  have fb1: "fb (tlc5940_update_fb (dev d1)) = gs_frame (leds (dev d1))"
    using pre(3) by (simp add: fb_update_fb wf_lengths)
  have "transmits (trace (run v d1 [Timer_expiry, Work_run ret])) = [gs_frame (leds (dev d1))]"
    using tick_dirty[of v d1 ret] pre by simp
  then have first: "transmits (trace (run v d0 (cs @ [Timer_expiry, Work_run ret])))
        = [fb (tlc5940_update_fb (dev (run v d0 cs)))]"
    unfolding run_simps(3) d1_def[symmetric] fb1 .
  have work: "new_gs_data (fst (tlc5940_work r tlc)) = (r \<noteq> 0 \<and> new_gs_data tlc)"
    by (simp add: tlc5940_work_def Let_def)
  show ?thesis
    using p(1) work first flag_cleared_only_by_work[of d v c] by simp
qed

lemma replicate_16: "replicate 16 x = [x, x, x, x, x, x, x, x, x, x, x, x, x, x, x, x]"
  by (simp add: numeral_eq_Suc)

lemma probe_env_ok: "tlc5940_probe env_ok = Bound (driver_of (tlc_of all_off 0 True))"
proof -
  have k: "kzalloc_tlc5940 =
      \<lparr>leds = replicate 16 \<lparr>led_id = 0, brightness = 0\<rparr>, fb = replicate 24 0,
       new_gs_data = False, gpio_blank = 0\<rparr>"
    by (simp add: kzalloc_tlc5940_def layout_consts)
  have c: "probe_children (replicate 16 0) 0
             (kzalloc_tlc5940\<lparr>gpio_blank := 17, new_gs_data := True\<rparr>)
           = Bound (tlc_of all_off 0 True)"
    unfolding k replicate_16
    by (simp add: Let_def LED_OFF_def tlc_of_def leds_of_def all_off_def)
  show ?thesis
    unfolding tlc5940_probe_def Let_def
    by (simp add: env_ok_def c driver_of_def)
qed

theorem C4_dirty_flag_witness:
  "new_gs_data (dev (driver_of (tlc_of all_off 0 True)))
   \<and> transmits (trace (run gpio_in_range (driver_of (tlc_of all_off 0 True))
                          ([] @ [Timer_expiry, Work_run 0])))
     = [fb (tlc5940_update_fb (dev (run gpio_in_range (driver_of (tlc_of all_off 0 True)) [])))]
   \<and> new_gs_data (tlc5940_set_brightness (tlc_of all_off 0 False) 3 0)"
proof -
  define D where "D = driver_of (tlc_of all_off 0 True)"
  have h: "tlc5940_probe env_ok = Bound D" "gpio_in_range (gpio_blank (dev D))"
    "\<forall>c\<in>set []. is_brightness_set c"
    by (simp_all add: D_def probe_env_ok)
  from C4_dirty_flag[of env_ok D gpio_in_range "[]" "tlc_of all_off 0 False" 3 0 0 D Timer_expiry 0, OF h]
  show ?thesis
    unfolding D_def[symmetric] by blast
qed

section \<open>Scaling and clamping in the 16-bit variant\<close>

lemma sint_scaled:
  "sint (push_bit 4 (ucast (ucast b :: u16) :: c_int)) = 16 * (uint (b :: c_int) mod 65536)"
proof -
  have w: "(ucast (ucast b :: u16) :: c_int) = take_bit 16 b"
    by (rule bit_eqI) (auto simp add: bit_simps)
  have "uint (take_bit 16 b) = take_bit 16 (uint b)"
    by (rule unsigned_take_bit_eq)
  also have "\<dots> = uint b mod 65536"
    by (simp add: take_bit_eq_mod)
  finally have u: "uint (ucast (ucast b :: u16) :: c_int) = uint b mod 65536"
    unfolding w .
  have lt: "uint b mod 65536 < 65536" "0 \<le> uint b mod 65536"
    by simp_all
  have "uint (push_bit 4 (ucast (ucast b :: u16) :: c_int))
        = take_bit 32 (push_bit 4 (uint (ucast (ucast b :: u16) :: c_int)))"
    by (simp only: unsigned_push_bit_eq) simp
  also have "\<dots> = take_bit 32 (16 * (uint b mod 65536))"
    unfolding u by (simp add: push_bit_eq_mult mult.commute)
  also have "\<dots> = 16 * (uint b mod 65536)"
    using lt by (intro take_bit_int_eq_self) simp_all
  finally have p: "uint (push_bit 4 (ucast (ucast b :: u16) :: c_int)) = 16 * (uint b mod 65536)" .
  have "sint (push_bit 4 (ucast (ucast b :: u16) :: c_int))
        = signed_take_bit 31 (16 * (uint b mod 65536))"
    by (simp add: sint_uint p)
  also have "\<dots> = 16 * (uint b mod 65536)"
    using lt by (intro signed_take_bit_int_eq_self) simp_all
  finally show ?thesis .
qed

lemma uint_scaled_brightness:
  "uint (scaled_brightness b) = min (16 * (uint b mod 65536)) 4095"
proof -
  have lt: "0 \<le> uint b mod 65536"
    by simp
  have "clamp (16 * (uint b mod 65536)) 0 4095 = min (16 * (uint b mod 65536)) 4095"
    using lt by (simp add: clamp_def)
  then have "scaled_brightness b = word_of_int (min (16 * (uint b mod 65536)) 4095)"
    by (simp add: scaled_brightness_def sint_scaled)
  moreover have "uint (word_of_int (min (16 * (uint b mod 65536)) 4095) :: u16)
      = min (16 * (uint b mod 65536)) 4095"
    using lt by (simp add: uint_word_of_int_eq take_bit_int_eq_self)
  ultimately show ?thesis by simp
qed

text \<open>
  C3, as the code has it. The variant of \<open>tlc5940_set_brightness\<close> that keeps a
  16-bit word per channel truncates its argument to 16 bits, shifts it left by 4
  and then clamps: it stores \<open>min (16 * (b mod 65536)) 4095\<close>, which is the scaled
  value when that is at most 4095 and the boundary 4095 otherwise (the scaled
  value is never negative), so what it stores lies in \<open>[0, 4095]\<close>. The primary
  \<open>tlc5940_set_brightness\<close> neither scales nor clamps: it stores its argument.
\<close>

theorem C3_scale_then_clamp:
  "uint (scaled_brightness b) = min (16 * (uint b mod 65536)) 4095
   \<and> 0 \<le> uint (scaled_brightness b) \<and> uint (scaled_brightness b) \<le> 4095
   \<and> (n < length fb16 \<longrightarrow> fst (tlc5940_set_brightness_fb16 fb16 n b) ! n = scaled_brightness b)
   \<and> (n < length (leds tlc) \<longrightarrow> brightness (leds (tlc5940_set_brightness tlc n b) ! n) = b)"
proof -
  have stored: "uint (scaled_brightness b) = min (16 * (uint b mod 65536)) 4095"
    by (rule uint_scaled_brightness)
  have "0 \<le> uint b mod 65536"
    by simp
  then have range: "0 \<le> uint (scaled_brightness b)" "uint (scaled_brightness b) \<le> 4095"
    unfolding stored by simp_all
  have fb16: "fst (tlc5940_set_brightness_fb16 fb16 n b) ! n = scaled_brightness b"
    if "n < length fb16"
    using that by (simp add: tlc5940_set_brightness_fb16_def)
  have primary: "brightness (leds (tlc5940_set_brightness tlc n b) ! n) = b"
    if "n < length (leds tlc)"
    using that by simp
  show ?thesis
    using stored range fb16 primary by blast
qed

theorem C3_scale_then_clamp_witness:
  "uint (scaled_brightness 255) = 4080
   \<and> uint (scaled_brightness 256) = 4095
   \<and> uint (scaled_brightness 0x10001) = 16
   \<and> fst (tlc5940_set_brightness_fb16 [0, 0, 0, 0, 0, 0, 0, 0, 0, 0, 0, 0, 0, 0, 0, 0] 2 300) ! 2 = 4095
   \<and> brightness (leds (tlc5940_set_brightness (tlc_of all_off 0 False) 2 300) ! 2) = 300"
proof -
  have s: "scaled_brightness 300 = 4095"
    using C3_scale_then_clamp[of 300 0 "[]" "tlc_of all_off 0 False"]
    by (simp add: word_uint_eq_iff)
  have n: "(2::nat) < length [0, 0, 0, 0, 0, 0, 0, 0, 0, 0, 0, 0, 0, 0, 0, 0 :: u16]"
    "(2::nat) < length (leds (tlc_of all_off 0 False))"
    by (simp_all add: leds_of_def all_off_def)
  show ?thesis
    using C3_scale_then_clamp[of 255 0 "[]" "tlc_of all_off 0 False"] C3_scale_then_clamp[of 256 0 "[]" "tlc_of all_off 0 False"]
      C3_scale_then_clamp[of "0x10001" 0 "[]" "tlc_of all_off 0 False"]
      C3_scale_then_clamp[of 300 2 "[0, 0, 0, 0, 0, 0, 0, 0, 0, 0, 0, 0, 0, 0, 0, 0]" "tlc_of all_off 0 False"]
      n s
    by simp
qed

text \<open>
  The primary \<open>tlc5940_set_brightness\<close> stores 5000 for the argument 5000: a value
  outside \<open>[0, 4095]\<close>, neither scaled nor clamped.
\<close>

theorem C3_scale_then_clamp_counterexample:
  "brightness (leds (tlc5940_set_brightness (tlc_of all_off 0 False) 0 5000) ! 0) = 5000
   \<and> \<not> sint (brightness (leds (tlc5940_set_brightness (tlc_of all_off 0 False) 0 5000) ! 0)) \<le> 4095"
  by (simp add: leds_of_def all_off_def)

end
